theory Spec2Isabelle
  imports Complex_Main
begin

section \<open>Python values, errors and string primitives\<close>

text \<open>
  The module under verification is \<^verbatim>\<open>system_test/utils/kafka_system_test_utils.py\<close>
  (Python 2). Strings are \<^typ>\<open>string\<close>; a JSON object whose values are strings
  (\<^verbatim>\<open>clusterEntityConfigDict\<close>, \<^verbatim>\<open>tcCfg\<close>) is an association list with distinct
  keys, the list order standing for the (unspecified) iteration order of the Python
  dictionary. Every exception the code can raise is a value of \<open>py_error\<close>; a function
  that can raise returns \<open>py_error + 'a\<close>.
\<close>

type_synonym dict = "(string \<times> string) list"

datatype pyval = Str string | Float real | NoneVal

datatype py_error =
    KeyError pyval
  | IndexError
  | AttributeError
  | TypeError
  | IOError string
  | UnboundLocalError string

datatype level = DEBUG | INFO | WARN | ERROR

abbreviation NL :: char where
  "NL \<equiv> CHR 0x0A"

abbreviation SQ :: char where
  "SQ \<equiv> CHR 0x27"

abbreviation DQ :: char where
  "DQ \<equiv> CHR 0x22"

text \<open>\<^verbatim>\<open>s.startswith(p)\<close>\<close>

fun startswith :: "string \<Rightarrow> string \<Rightarrow> bool" where
  "startswith s [] = True"
| "startswith [] (p # ps) = False"
| "startswith (c # cs) (p # ps) = (c = p \<and> startswith cs ps)"

text \<open>\<^verbatim>\<open>sub in s\<close> on strings: \<open>sub\<close> occurs in \<open>s\<close> as a contiguous substring.\<close>

fun py_in :: "string \<Rightarrow> string \<Rightarrow> bool" where
  "py_in sub [] = (sub = [])"
| "py_in sub (c # cs) = (startswith (c # cs) sub \<or> py_in sub cs)"

text \<open>\<^verbatim>\<open>s.rstrip('\n')\<close>: every trailing newline is removed.\<close>

definition rstrip_nl :: "string \<Rightarrow> string" where
  "rstrip_nl s = rev (dropWhile (\<lambda>c. c = NL) (rev s))"

text \<open>\<^verbatim>\<open>s.split(':')\<close>: the fields between the colons; never empty.\<close>

fun split_colon :: "string \<Rightarrow> string list" where
  "split_colon [] = [[]]"
| "split_colon (c # cs) =
     (if c = CHR '':'' then [] # split_colon cs
      else (case split_colon cs of
              [] \<Rightarrow> [[c]]
            | t # ts \<Rightarrow> (c # t) # ts))"

text \<open>\<^verbatim>\<open>xs[i]\<close> on a list, raising IndexError out of range.\<close>

definition py_index :: "'a list \<Rightarrow> nat \<Rightarrow> py_error + 'a" where
  "py_index xs i = (if i < length xs then Inr (xs ! i) else Inl IndexError)"

text \<open>\<^verbatim>\<open>d[k]\<close> on a dictionary, raising KeyError on a missing key.\<close>

definition dict_get :: "(string \<times> 'v) list \<Rightarrow> string \<Rightarrow> py_error + 'v" where
  "dict_get d k = (case map_of d k of None \<Rightarrow> Inl (KeyError (Str k)) | Some v \<Rightarrow> Inr v)"

definition map_get :: "(string \<rightharpoonup> 'v) \<Rightarrow> string \<Rightarrow> py_error + 'v" where
  "map_get m k = (case m k of None \<Rightarrow> Inl (KeyError (Str k)) | Some v \<Rightarrow> Inr v)"

text \<open>\<^verbatim>\<open>d[k] = v\<close> on a dictionary: an existing key keeps its place.\<close>

fun dict_set :: "(string \<times> 'v) list \<Rightarrow> string \<Rightarrow> 'v \<Rightarrow> (string \<times> 'v) list" where
  "dict_set [] k v = [(k, v)]"
| "dict_set ((k', v') # d) k v =
     (if k' = k then (k, v) # d else (k', v') # dict_set d k v)"

text \<open>\<^verbatim>\<open>" ".join(xs)\<close>\<close>

fun join_sp :: "string list \<Rightarrow> string" where
  "join_sp [] = []"
| "join_sp [x] = x"
| "join_sp (x # y # ys) = x @ '' '' @ join_sp (y # ys)"

text \<open>\<^verbatim>\<open>f.readlines()\<close>: the lines of a text, each with its terminating newline
  (the last line has none when the text does not end in one).\<close>

fun readlines :: "string \<Rightarrow> string list" where
  "readlines [] = []"
| "readlines (c # cs) =
     (if c = NL then [c] # readlines cs
      else (case readlines cs of
              [] \<Rightarrow> [[c]]
            | l # ls \<Rightarrow> (c # l) # ls))"

text \<open>\<^verbatim>\<open>str(n)\<close> for a non-negative integer: its decimal digits.\<close>

fun str_nat :: "nat \<Rightarrow> string" where
  "str_nat n =
     (if n < 10 then [char_of (48 + n)]
      else str_nat (n div 10) @ [char_of (48 + n mod 10)])"

declare str_nat.simps [simp del]

text \<open>
  \<^verbatim>\<open>set(xs)\<close> and \<^verbatim>\<open>a - b\<close> on sets. A Python set is iterated in an unspecified
  order; it is modelled as a duplicate-free list, and the theorems below speak of the
  list's elements only, never of their order.
\<close>

definition py_set :: "string list \<Rightarrow> string list" where
  "py_set xs = remdups xs"

definition set_minus :: "string list \<Rightarrow> string list \<Rightarrow> string list" where
  "set_minus a b = filter (\<lambda>x. x \<notin> set b) a"

section \<open>The testcase environment and the outside world\<close>

text \<open>
  \<^verbatim>\<open>testcaseEnv\<close> and \<^verbatim>\<open>systemTestEnv\<close> are the two objects every function of the
  module receives. The \<open>world\<close> holds what the functions change besides them: the
  records handed to \<^verbatim>\<open>logger\<close>, what \<^verbatim>\<open>print\<close> wrote, the local files, and the
  shell commands handed to \<^verbatim>\<open>system_test_utils\<close>. The local files are a map from
  path to content; opening an absent file for reading raises IOError. \<open>writable\<close> holds
  of the paths that \<^verbatim>\<open>open(path, "w")\<close> can open and write (the directory exists and
  may be written); for every other path \<^verbatim>\<open>open(path, "w")\<close> raises IOError.
  A function returning \<open>Inl e\<close> stands for the exception \<open>e\<close> leaving the function
  (the changes made before the exception are not reported then).
\<close>

record testcaseEnv =
  testCaseBaseDir :: string
  testCaseLogsDir :: string
  testcaseConfigsList :: "dict list"
  userDefinedEnvVarDict :: "string \<rightharpoonup> string"
  entityParentPidDict :: "string \<rightharpoonup> string"
  validationStatusDict :: "string \<rightharpoonup> string"

record systemTestEnv =
  clusterEntityConfigDictList :: "dict list"

datatype printed = PStr string | PDict "(string \<times> pyval) list" | PCfg dict | PExc py_error

record world =
  logged :: "(level \<times> string) list"
  stdout :: "printed list list"
  files :: "string \<rightharpoonup> string"
  writable :: "string \<Rightarrow> bool"
  issued :: "string list"

definition logger_log :: "level \<Rightarrow> string \<Rightarrow> world \<Rightarrow> world" where
  "logger_log lv msg w = w\<lparr>logged := logged w @ [(lv, msg)]\<rparr>"

text \<open>\<^verbatim>\<open>f = open(path, "w")\<close>, the writes of \<open>content\<close> to \<^verbatim>\<open>f\<close> and \<^verbatim>\<open>f.close()\<close>.\<close>

definition open_write :: "string \<Rightarrow> string \<Rightarrow> world \<Rightarrow> py_error + world" where
  "open_write path content w =
     (if writable w path then Inr (w\<lparr>files := (files w)(path \<mapsto> content)\<rparr>)
      else Inl (IOError path))"

text \<open>A \<^verbatim>\<open>print\<close> statement with its comma-separated items.\<close>

definition py_print :: "printed list \<Rightarrow> world \<Rightarrow> world" where
  "py_print items w = w\<lparr>stdout := stdout w @ [items]\<rparr>"

text \<open>
  The module \<^verbatim>\<open>system_test_utils\<close> (lookups in lists of dictionaries, the remote
  shell) and the libraries \<^verbatim>\<open>re\<close>, \<^verbatim>\<open>datetime\<close>, \<^verbatim>\<open>time\<close> and \<^verbatim>\<open>os.path\<close> are
  outside the module. They are parameters of the model: every theorem holds for every
  behaviour of them. The standard output of a remote command may depend on all the
  commands issued before it.
\<close>

record system_test_utils =
  get_data_by_lookup_keyval :: "dict list \<Rightarrow> string \<Rightarrow> string \<Rightarrow> string \<Rightarrow> string"
  get_data_from_list_of_dicts :: "dict list \<Rightarrow> string \<Rightarrow> string \<Rightarrow> string \<Rightarrow> string list"
  get_dict_from_list_of_dicts :: "dict list \<Rightarrow> string \<Rightarrow> string \<Rightarrow> dict list"
  subproc_stdout :: "string list \<Rightarrow> string \<Rightarrow> string list"
  re_match :: "string \<Rightarrow> string \<Rightarrow> string option list option"
  strptime_mktime :: "string \<Rightarrow> real option"
  abspath :: "string \<Rightarrow> string"

text \<open>\<^verbatim>\<open>sys_call\<close> and \<^verbatim>\<open>async_sys_call\<close>: the command is handed to the shell.\<close>

definition sys_call :: "string \<Rightarrow> world \<Rightarrow> world" where
  "sys_call cmd w = w\<lparr>issued := issued w @ [cmd]\<rparr>"

text \<open>\<^verbatim>\<open>sys_call_return_subproc(cmd).stdout.readlines()\<close>\<close>

definition sys_call_return_subproc ::
  "system_test_utils \<Rightarrow> string \<Rightarrow> world \<Rightarrow> string list \<times> world" where
  "sys_call_return_subproc U cmd w = (subproc_stdout U (issued w) cmd, sys_call cmd w)"

section \<open>Path resolver\<close>

definition get_testcase_config_log_dir_pathname ::
  "testcaseEnv \<Rightarrow> string \<Rightarrow> string \<Rightarrow> string \<Rightarrow> world \<Rightarrow> string \<times> world" where
  "get_testcase_config_log_dir_pathname tenv role entityId type w =
     (let defaultLogDir = testCaseLogsDir tenv @ ''/'' @ role @ ''-'' @ entityId in
      if type = ''metrics'' then
        (testCaseLogsDir tenv @ ''/'' @ role @ ''-'' @ entityId @ ''/metrics'', w)
      else if type = ''default'' then
        (testCaseLogsDir tenv @ ''/'' @ role @ ''-'' @ entityId, w)
      else if type = ''dashboards'' then
        (testCaseLogsDir tenv @ ''/dashboards'', w)
      else if type = ''config'' then
        (testCaseBaseDir tenv @ ''/config'', w)
      else
        (defaultLogDir,
         logger_log ERROR (''returning default log dir : '' @ defaultLogDir)
           (logger_log ERROR (''unrecognized log directory type : '' @ type) w)))"

section \<open>Message identifiers\<close>

text \<open>
  \<^verbatim>\<open>re.match('.*MessageID:(.*?):', line)\<close>, returning group 1. The dot does not
  match a newline, so the whole match lies before the first newline of the line. The
  greedy \<^verbatim>\<open>.*\<close> makes the match start at the last occurrence of \<^verbatim>\<open>MessageID:\<close>
  that a colon follows; the lazy group ends at the first such colon.
\<close>

fun find_msgid :: "string \<Rightarrow> string option" where
  "find_msgid [] = None"
| "find_msgid (c # cs) =
     (case find_msgid cs of
        Some g \<Rightarrow> Some g
      | None \<Rightarrow>
          (if startswith (c # cs) ''MessageID:'' then
             (let rest = drop 10 (c # cs) in
              if CHR '':'' \<in> set rest then Some (takeWhile (\<lambda>x. x \<noteq> CHR '':'') rest)
              else None)
           else None))"

definition re_match_MessageID :: "string \<Rightarrow> string option" where
  "re_match_MessageID line = find_msgid (takeWhile (\<lambda>x. x \<noteq> NL) line)"

text \<open>The loop of \<^verbatim>\<open>get_message_id\<close>: \<^verbatim>\<open>matchObj.group(1)\<close> on a failed match
  (\<^verbatim>\<open>matchObj\<close> is \<^verbatim>\<open>None\<close>) raises AttributeError.\<close>

fun get_message_id_loop :: "string list \<Rightarrow> string list \<Rightarrow> py_error + string list" where
  "get_message_id_loop [] messageIdList = Inr messageIdList"
| "get_message_id_loop (line # logLines) messageIdList =
     (if \<not> py_in ''MessageID'' line then get_message_id_loop logLines messageIdList
      else (case re_match_MessageID line of
              None \<Rightarrow> Inl AttributeError
            | Some g \<Rightarrow> get_message_id_loop logLines (messageIdList @ [g])))"

definition get_message_id :: "(string \<rightharpoonup> string) \<Rightarrow> string \<Rightarrow> py_error + string list" where
  "get_message_id fs logPathName =
     (case fs logPathName of
        None \<Rightarrow> Inl (IOError logPathName)
      | Some content \<Rightarrow> get_message_id_loop (readlines content) [])"

section \<open>Validation of the message sets\<close>

definition validate_data_matched ::
  "system_test_utils \<Rightarrow> systemTestEnv \<Rightarrow> testcaseEnv \<Rightarrow> world
     \<Rightarrow> py_error + (bool \<times> testcaseEnv \<times> world)" where
  "validate_data_matched U senv tenv w =
     (let clusterEntityConfigDictList = clusterEntityConfigDictList senv;
          producerEntityId = get_data_by_lookup_keyval U clusterEntityConfigDictList
                               ''role'' ''producer_performance'' ''entity_id'';
          consumerEntityId = get_data_by_lookup_keyval U clusterEntityConfigDictList
                               ''role'' ''console_consumer'' ''entity_id'';
          (dir, w1) = get_testcase_config_log_dir_pathname tenv
                        ''console_consumer'' consumerEntityId ''default'' w;
          msgIdMissingInConsumerLogPathName = dir @ ''/msg_id_missing_in_consumer.log''
      in
      case map_get (userDefinedEnvVarDict tenv) ''producerLogPathName'' of
        Inl e \<Rightarrow> Inl e
      | Inr producerLogPathName \<Rightarrow>
      (case get_message_id (files w1) producerLogPathName of
        Inl e \<Rightarrow> Inl e
      | Inr producerMsgIdList \<Rightarrow>
      (case map_get (userDefinedEnvVarDict tenv) ''consumerLogPathName'' of
        Inl e \<Rightarrow> Inl e
      | Inr consumerLogPathName \<Rightarrow>
      (case get_message_id (files w1) consumerLogPathName of
        Inl e \<Rightarrow> Inl e
      | Inr consumerMsgIdList \<Rightarrow>
      (let producerMsgIdSet = py_set producerMsgIdList;
           consumerMsgIdSet = py_set consumerMsgIdList;
           missingMsgIdInConsumer = set_minus producerMsgIdSet consumerMsgIdSet
       in
       case open_write msgIdMissingInConsumerLogPathName
              (concat (map (\<lambda>id. id @ [NL]) missingMsgIdInConsumer)) w1 of
         Inl e \<Rightarrow> Inl e
       | Inr w2 \<Rightarrow>
      (let w3 = logger_log INFO (''no. of unique messages sent from publisher  : ''
                   @ str_nat (length producerMsgIdSet)) w2;
           w4 = logger_log INFO (''no. of unique messages received by consumer : ''
                   @ str_nat (length producerMsgIdSet)) w3
       in
       if length missingMsgIdInConsumer = 0 \<and> length producerMsgIdSet > 0 then
         Inr (True,
              tenv\<lparr>validationStatusDict :=
                (validationStatusDict tenv)(''Validate for data matched'' \<mapsto> ''PASSED'')\<rparr>,
              w4)
       else
         Inr (False,
              tenv\<lparr>validationStatusDict :=
                (validationStatusDict tenv)(''Validate for data matched'' \<mapsto> ''FAILED'')\<rparr>,
              logger_log INFO (''See '' @ msgIdMissingInConsumerLogPathName
                 @ '' for missing MessageID'') w4)))))))"

section \<open>Config materializer\<close>

text \<open>
  The inner loop of \<^verbatim>\<open>copy_file_with_dict_values\<close> on one line: every key of the
  dictionary is tried in turn, on the line as the keys before it left it. The loop
  reads \<^verbatim>\<open>dictObj[key]\<close> for each \<^verbatim>\<open>key\<close> of \<^verbatim>\<open>dictObj.keys()\<close>: the entries of
  the dictionary, in its iteration order.
\<close>

fun copy_line :: "dict \<Rightarrow> string \<Rightarrow> string" where
  "copy_line [] line = line"
| "copy_line ((key, val) # entries) line =
     copy_line entries
       (if startswith line (key @ ''='') then key @ ''='' @ val @ [NL] else line)"

definition copy_file_with_dict_values ::
  "string \<Rightarrow> string \<Rightarrow> dict \<Rightarrow> world \<Rightarrow> py_error + world" where
  "copy_file_with_dict_values srcFile destFile dictObj w =
     (case files w srcFile of
        None \<Rightarrow> Inl (IOError srcFile)
      | Some content \<Rightarrow>
          open_write destFile (concat (map (copy_line dictObj) (readlines content))) w)"

text \<open>The loop over the zookeepers that builds \<^verbatim>\<open>zkConnectStr\<close>.\<close>

fun zk_connect_loop ::
  "system_test_utils \<Rightarrow> dict list \<Rightarrow> dict list \<Rightarrow> string \<Rightarrow> py_error + string" where
  "zk_connect_loop U tcConfigsList [] zkConnectStr = Inr zkConnectStr"
| "zk_connect_loop U tcConfigsList (zkDict # zkDictList) zkConnectStr =
     (case dict_get zkDict ''entity_id'' of
        Inl e \<Rightarrow> Inl e
      | Inr entityID \<Rightarrow>
     (case dict_get zkDict ''hostname'' of
        Inl e \<Rightarrow> Inl e
      | Inr hostname \<Rightarrow>
     (case py_index (get_data_from_list_of_dicts U tcConfigsList
                       ''entity_id'' entityID ''clientPort'') 0 of
        Inl e \<Rightarrow> Inl e
      | Inr clientPort \<Rightarrow>
          zk_connect_loop U tcConfigsList zkDictList
            (if length zkConnectStr = 0 then hostname @ '':'' @ clientPort
             else zkConnectStr @ '','' @ hostname @ '':'' @ clientPort))))"






section \<open>Process lifecycle manager\<close>

text \<open>The loop over the lines of the pid marker file in \<^verbatim>\<open>start_metrics_collection\<close>.\<close>

fun metrics_pid_loop ::
  "string list \<Rightarrow> testcaseEnv \<Rightarrow> world \<Rightarrow> py_error + (testcaseEnv \<times> world)" where
  "metrics_pid_loop [] tenv w = Inr (tenv, w)"
| "metrics_pid_loop (line # lines) tenv w =
     (if startswith line ''pid'' then
        (let line1 = rstrip_nl line;
             w1 = logger_log DEBUG (''found pid line: ['' @ line1 @ '']'') w;
             tokens = split_colon line1
         in case py_index tokens 1 of
              Inl e \<Rightarrow> Inl e
            | Inr thisPid \<Rightarrow>
                metrics_pid_loop lines
                  (tenv\<lparr>entityParentPidDict := (entityParentPidDict tenv)(thisPid \<mapsto> thisPid)\<rparr>)
                  w1)
      else metrics_pid_loop lines tenv w)"

definition start_metrics_collection ::
  "system_test_utils \<Rightarrow> string \<Rightarrow> string \<Rightarrow> string \<Rightarrow> string \<Rightarrow> string \<Rightarrow> dict list
     \<Rightarrow> testcaseEnv \<Rightarrow> world \<Rightarrow> py_error + (testcaseEnv \<times> world)" where
  "start_metrics_collection U jmxHost jmxPort mBeanObjectName mBeanAttributes entityId
       entityConfigDictList tenv w =
     (let w1 = logger_log INFO (''starting metrics collection on jmx port: '' @ jmxPort) w;
          jmxUrl = ''service:jmx:rmi:///jndi/rmi://'' @ jmxHost @ '':'' @ jmxPort @ ''/jmxrmi'';
          kafkaHome = get_data_by_lookup_keyval U entityConfigDictList
                        ''entity_id'' entityId ''kafka_home'';
          javaHome = get_data_by_lookup_keyval U entityConfigDictList
                        ''entity_id'' entityId ''java_home'';
          (metricsPathName, w2) =
             get_testcase_config_log_dir_pathname tenv ''broker'' entityId ''metrics'' w1;
          startMetricsCmdList =
            [''ssh '' @ jmxHost,
             [SQ] @ ''JAVA_HOME='' @ javaHome,
             ''JMX_PORT= '' @ kafkaHome @ ''/bin/kafka-run-class.sh kafka.tools.JmxTool'',
             ''--jmx-url '' @ jmxUrl,
             ''--object-name '' @ mBeanObjectName @ '' &> '',
             metricsPathName @ ''/metrics.csv & echo pid:$! > '',
             metricsPathName @ ''/entity_pid'' @ [SQ]];
          startMetricsCommand = join_sp startMetricsCmdList;
          w3 = logger_log DEBUG (''executing command: ['' @ startMetricsCommand @ '']'') w2;
          w4 = sys_call startMetricsCommand w3;
          pidCmdStr = ''ssh '' @ jmxHost @ '' '' @ [SQ] @ ''cat '' @ metricsPathName
                        @ ''/entity_pid'' @ [SQ];
          w5 = logger_log DEBUG (''executing command: ['' @ pidCmdStr @ '']'') w4;
          (lines, w6) = sys_call_return_subproc U pidCmdStr w5
      in metrics_pid_loop lines tenv w6)"

text \<open>The loop over the lines of the pid marker file in \<^verbatim>\<open>start_entity_in_background\<close>.\<close>

fun entity_pid_loop ::
  "string \<Rightarrow> string list \<Rightarrow> testcaseEnv \<Rightarrow> world \<Rightarrow> py_error + (testcaseEnv \<times> world)" where
  "entity_pid_loop entityId [] tenv w = Inr (tenv, w)"
| "entity_pid_loop entityId (line # lines) tenv w =
     (if startswith line ''pid'' then
        (let line1 = rstrip_nl line;
             w1 = logger_log DEBUG (''found pid line: ['' @ line1 @ '']'') w;
             tokens = split_colon line1
         in case py_index tokens 1 of
              Inl e \<Rightarrow> Inl e
            | Inr pid \<Rightarrow>
                entity_pid_loop entityId lines
                  (tenv\<lparr>entityParentPidDict := (entityParentPidDict tenv)(entityId \<mapsto> pid)\<rparr>)
                  w1)
      else entity_pid_loop entityId lines tenv w)"

text \<open>
  \<^verbatim>\<open>start_entity_in_background\<close>. \<^verbatim>\<open>cmdList\<close> is assigned for the roles zookeeper and
  broker only: for another role \<^verbatim>\<open>" ".join(cmdList)\<close> raises UnboundLocalError.
  \<^verbatim>\<open>time.sleep(5)\<close> has no effect on the values.
\<close>

definition start_entity_in_background ::
  "system_test_utils \<Rightarrow> systemTestEnv \<Rightarrow> testcaseEnv \<Rightarrow> string \<Rightarrow> world
     \<Rightarrow> py_error + (testcaseEnv \<times> world)" where
  "start_entity_in_background U senv tenv entityId w =
     (let clusterEntityConfigDictList = clusterEntityConfigDictList senv;
          hostname = get_data_by_lookup_keyval U clusterEntityConfigDictList
                       ''entity_id'' entityId ''hostname'';
          role = get_data_by_lookup_keyval U clusterEntityConfigDictList
                       ''entity_id'' entityId ''role'';
          kafkaHome = get_data_by_lookup_keyval U clusterEntityConfigDictList
                       ''entity_id'' entityId ''kafka_home'';
          javaHome = get_data_by_lookup_keyval U clusterEntityConfigDictList
                       ''entity_id'' entityId ''java_home'';
          jmxPort = get_data_by_lookup_keyval U clusterEntityConfigDictList
                       ''entity_id'' entityId ''jmx_port'';
          testcaseConfigsList = testcaseConfigsList tenv;
          clientPort = get_data_by_lookup_keyval U testcaseConfigsList
                       ''entity_id'' entityId ''clientPort'';
          configFile = get_data_by_lookup_keyval U testcaseConfigsList
                       ''entity_id'' entityId ''config_filename'';
          logFile = get_data_by_lookup_keyval U testcaseConfigsList
                       ''entity_id'' entityId ''log_filename'';
          w1 = logger_log INFO (''starting '' @ role @ '' in host ['' @ hostname
                  @ ''] on client port ['' @ clientPort @ '']'') w;
          (configPathName, w2) =
             get_testcase_config_log_dir_pathname tenv role entityId ''config'' w1;
          (logPathName, w3) =
             get_testcase_config_log_dir_pathname tenv role entityId ''default'' w2
      in
      case (if role = ''zookeeper'' then
              (case map_get (userDefinedEnvVarDict tenv) ''zkConnectStr'' of
                 Inl e \<Rightarrow> Inl e
               | Inr zkConnectStr \<Rightarrow>
                   Inr ([''ssh '' @ hostname,
                         [SQ] @ ''JAVA_HOME='' @ javaHome,
                         kafkaHome @ ''/bin/zookeeper-server-start.sh '',
                         configPathName @ ''/'' @ configFile @ '' &> '',
                         logPathName @ ''/'' @ logFile @ '' & echo pid:$! > '',
                         logPathName @ ''/entity_'' @ entityId @ ''_pid'' @ [SQ]],
                        tenv\<lparr>userDefinedEnvVarDict := (userDefinedEnvVarDict tenv)
                          (''zkConnectStr'' \<mapsto>
                             (if length zkConnectStr > 0
                              then zkConnectStr @ '','' @ hostname @ '':'' @ clientPort
                              else hostname @ '':'' @ clientPort))\<rparr>))
            else if role = ''broker'' then
              Inr ([''ssh '' @ hostname,
                    [SQ] @ ''JAVA_HOME='' @ javaHome,
                    ''JMX_PORT='' @ jmxPort,
                    kafkaHome @ ''/bin/kafka-run-class.sh kafka.Kafka'',
                    configPathName @ ''/'' @ configFile @ '' &> '',
                    logPathName @ ''/'' @ logFile @ '' & echo pid:$! > '',
                    logPathName @ ''/entity_'' @ entityId @ ''_pid'' @ [SQ]],
                   tenv)
            else Inl (UnboundLocalError ''cmdList'')) of
        Inl e \<Rightarrow> Inl e
      | Inr (cmdList, tenv1) \<Rightarrow>
          (let cmdStr = join_sp cmdList;
               w4 = logger_log DEBUG (''executing command: ['' @ cmdStr @ '']'') w3;
               w5 = sys_call cmdStr w4;
               pidCmdStr = ''ssh '' @ hostname @ '' '' @ [SQ] @ ''cat '' @ logPathName
                             @ ''/entity_'' @ entityId @ ''_pid'' @ [SQ];
               w6 = logger_log DEBUG (''executing command: ['' @ pidCmdStr @ '']'') w5;
               (lines, w7) = sys_call_return_subproc U pidCmdStr w6
           in case entity_pid_loop entityId lines tenv1 w7 of
                Inl e \<Rightarrow> Inl e
              | Inr (tenv2, w8) \<Rightarrow>
                  if role = ''broker'' then
                    start_metrics_collection U hostname jmxPort
                      ''kafka:type=kafka.SocketServerStats''
                      ''AvgFetchRequestMs, AvgProduceRequestMs''
                      entityId clusterEntityConfigDictList tenv2 w8
                  else Inr (tenv2, w8)))"

text \<open>The loop of \<^verbatim>\<open>start_zookeepers\<close> and of \<^verbatim>\<open>start_brokers\<close>.\<close>

fun start_entities ::
  "system_test_utils \<Rightarrow> systemTestEnv \<Rightarrow> string list \<Rightarrow> testcaseEnv \<Rightarrow> world
     \<Rightarrow> py_error + (testcaseEnv \<times> world)" where
  "start_entities U senv [] tenv w = Inr (tenv, w)"
| "start_entities U senv (entityId # entityIdList) tenv w =
     (case start_entity_in_background U senv tenv entityId w of
        Inl e \<Rightarrow> Inl e
      | Inr (tenv1, w1) \<Rightarrow> start_entities U senv entityIdList tenv1 w1)"

definition start_zookeepers ::
  "system_test_utils \<Rightarrow> systemTestEnv \<Rightarrow> testcaseEnv \<Rightarrow> world
     \<Rightarrow> py_error + (testcaseEnv \<times> world)" where
  "start_zookeepers U senv tenv w =
     start_entities U senv
       (get_data_from_list_of_dicts U (clusterEntityConfigDictList senv)
          ''role'' ''zookeeper'' ''entity_id'') tenv w"

definition start_brokers ::
  "system_test_utils \<Rightarrow> systemTestEnv \<Rightarrow> testcaseEnv \<Rightarrow> world
     \<Rightarrow> py_error + (testcaseEnv \<times> world)" where
  "start_brokers U senv tenv w =
     start_entities U senv
       (get_data_from_list_of_dicts U (clusterEntityConfigDictList senv)
          ''role'' ''broker'' ''entity_id'') tenv w"

section \<open>Leader-election fact\<close>

text \<open>
  \<^verbatim>\<open>leaderDict\<close> maps field names to values; the timestamp is a float, a group of the
  match that took no part in it is \<^verbatim>\<open>None\<close>.
\<close>

type_synonym leader_dict = "(string \<times> pyval) list"

definition group_val :: "string option \<Rightarrow> pyval" where
  "group_val g = (case g of None \<Rightarrow> NoneVal | Some s \<Rightarrow> Str s)"

text \<open>
  The body of the \<^verbatim>\<open>try\<close> in \<^verbatim>\<open>get_leader_elected_log_line\<close>: the dictionary as the
  body left it, and whether the bare \<^verbatim>\<open>except\<close> caught an exception. \<open>re_match\<close> is
  \<open>None\<close> when the pattern is invalid or does not match (then \<^verbatim>\<open>matchObj.group\<close>
  raises); \<^verbatim>\<open>group(n)\<close> beyond the pattern's groups raises IndexError;
  \<open>strptime_mktime\<close> is the timestamp computed from \<^verbatim>\<open>datetimeStr\<close>, \<open>None\<close> when
  \<^verbatim>\<open>strptime\<close> or \<^verbatim>\<open>mktime\<close> raises.
\<close>

definition leader_try_body ::
  "system_test_utils \<Rightarrow> testcaseEnv \<Rightarrow> string \<Rightarrow> leader_dict \<Rightarrow> leader_dict \<times> bool" where
  "leader_try_body U tenv line leaderDict =
     (case map_get (userDefinedEnvVarDict tenv) ''REGX_LEADER_ELECTION_PATTERN'' of
        Inl e \<Rightarrow> (leaderDict, True)
      | Inr pattern \<Rightarrow>
     (case re_match U pattern line of
        None \<Rightarrow> (leaderDict, True)
      | Some groups \<Rightarrow>
     (case py_index groups 0 of
        Inl e \<Rightarrow> (leaderDict, True)
      | Inr None \<Rightarrow> (leaderDict, True)
      | Inr (Some datetimeStr) \<Rightarrow>
     (case strptime_mktime U datetimeStr of
        None \<Rightarrow> (leaderDict, True)
      | Some unixTs \<Rightarrow>
     (let d1 = dict_set leaderDict ''timestamp'' (Float unixTs) in
      case py_index groups 1 of
        Inl e \<Rightarrow> (d1, True)
      | Inr g2 \<Rightarrow>
     (let d2 = dict_set d1 ''brokerid'' (group_val g2) in
      case py_index groups 2 of
        Inl e \<Rightarrow> (d2, True)
      | Inr g3 \<Rightarrow>
     (let d3 = dict_set d2 ''topic'' (group_val g3) in
      case py_index groups 3 of
        Inl e \<Rightarrow> (d3, True)
      | Inr g4 \<Rightarrow> (dict_set d3 ''partition'' (group_val g4), False))))))))"

text \<open>\<^verbatim>\<open>for line in subproc.stdout.readlines()\<close>\<close>

fun leader_line_loop ::
  "system_test_utils \<Rightarrow> testcaseEnv \<Rightarrow> string list \<Rightarrow> leader_dict \<Rightarrow> world
     \<Rightarrow> py_error + (leader_dict \<times> world)" where
  "leader_line_loop U tenv [] leaderDict w = Inr (leaderDict, w)"
| "leader_line_loop U tenv (line0 # lines) leaderDict w =
     (let line = rstrip_nl line0 in
      case map_get (userDefinedEnvVarDict tenv) ''LEADER_ELECTION_COMPLETED_MSG'' of
        Inl e \<Rightarrow> Inl e
      | Inr msg \<Rightarrow>
          if py_in msg line then
            (let w1 = logger_log INFO (''found the log line : '' @ line) w;
                 (d1, raised) = leader_try_body U tenv line leaderDict;
                 w2 = (if raised then
                         logger_log ERROR
                           ''ERROR [unable to find matching leader details: Has the matching pattern changed?]''
                           w1
                       else w1)
             in leader_line_loop U tenv lines d1 w2)
          else leader_line_loop U tenv lines leaderDict w)"

text \<open>\<^verbatim>\<open>for brokerEntityId in brokerEntityIdList\<close>\<close>

fun leader_broker_loop ::
  "system_test_utils \<Rightarrow> systemTestEnv \<Rightarrow> testcaseEnv \<Rightarrow> string list \<Rightarrow> leader_dict \<Rightarrow> world
     \<Rightarrow> py_error + (leader_dict \<times> world)" where
  "leader_broker_loop U senv tenv [] leaderDict w = Inr (leaderDict, w)"
| "leader_broker_loop U senv tenv (brokerEntityId # brokerEntityIdList) leaderDict w =
     (let hostname = get_data_by_lookup_keyval U (clusterEntityConfigDictList senv)
                       ''entity_id'' brokerEntityId ''hostname'';
          logFile = get_data_by_lookup_keyval U (testcaseConfigsList tenv)
                       ''entity_id'' brokerEntityId ''log_filename'';
          d1 = dict_set leaderDict ''entity_id'' (Str brokerEntityId);
          d2 = dict_set d1 ''hostname'' (Str hostname);
          (logPathName, w1) =
             get_testcase_config_log_dir_pathname tenv ''broker'' brokerEntityId ''default'' w
      in
      case map_get (userDefinedEnvVarDict tenv) ''LEADER_ELECTION_COMPLETED_MSG'' of
        Inl e \<Rightarrow> Inl e
      | Inr msg \<Rightarrow>
          (let cmdStrList =
                 [''ssh '' @ hostname,
                  [DQ] @ ''grep -i -h '' @ [SQ] @ msg @ [SQ] @ '' '',
                  logPathName @ ''/'' @ logFile @ '' | '',
                  ''sort | tail -1'' @ [DQ]];
               cmdStr = join_sp cmdStrList;
               w2 = logger_log DEBUG (''executing command ['' @ cmdStr @ '']'') w1;
               (lines, w3) = sys_call_return_subproc U cmdStr w2
           in case leader_line_loop U tenv lines d2 w3 of
                Inl e \<Rightarrow> Inl e
              | Inr (d3, w4) \<Rightarrow>
                  leader_broker_loop U senv tenv brokerEntityIdList d3 w4))"

definition get_leader_elected_log_line ::
  "system_test_utils \<Rightarrow> systemTestEnv \<Rightarrow> testcaseEnv \<Rightarrow> world
     \<Rightarrow> py_error + (leader_dict \<times> world)" where
  "get_leader_elected_log_line U senv tenv w =
     (let w1 = logger_log INFO ''looking up leader...'' w;
          brokerEntityIdList = get_data_from_list_of_dicts U (clusterEntityConfigDictList senv)
                                 ''role'' ''broker'' ''entity_id''
      in leader_broker_loop U senv tenv brokerEntityIdList [] w1)"

section \<open>Validation of the leader election\<close>

text \<open>\<^verbatim>\<open>s + v\<close> for a string \<open>s\<close>: TypeError unless \<open>v\<close> is a string.\<close>

definition py_concat :: "string \<Rightarrow> pyval \<Rightarrow> py_error + string" where
  "py_concat s v = (case v of Str t \<Rightarrow> Inr (s @ t) | _ \<Rightarrow> Inl TypeError)"

text \<open>\<^verbatim>\<open>testcaseEnv.entityParentPidDict[k]\<close>: the keys on record are strings.\<close>

definition pid_lookup :: "(string \<rightharpoonup> string) \<Rightarrow> pyval \<Rightarrow> py_error + string" where
  "pid_lookup m k = (case k of Str s \<Rightarrow> map_get m s | _ \<Rightarrow> Inl (KeyError k))"

text \<open>The body of the \<^verbatim>\<open>try\<close> in \<^verbatim>\<open>validate_leader_election_successful\<close>, up to the
  call of \<^verbatim>\<open>logger.info\<close>: the message to log, or the exception raised.\<close>

definition leader_info_try :: "testcaseEnv \<Rightarrow> leader_dict \<Rightarrow> py_error + string" where
  "leader_info_try tenv leaderDict =
     (case dict_get leaderDict ''brokerid'' of
        Inl e \<Rightarrow> Inl e
      | Inr leaderBrokerId \<Rightarrow>
     (case dict_get leaderDict ''entity_id'' of
        Inl e \<Rightarrow> Inl e
      | Inr leaderEntityId \<Rightarrow>
     (case pid_lookup (entityParentPidDict tenv) leaderEntityId of
        Inl e \<Rightarrow> Inl e
      | Inr leaderPid \<Rightarrow>
     (case dict_get leaderDict ''hostname'' of
        Inl e \<Rightarrow> Inl e
      | Inr hostname \<Rightarrow>
     (case py_concat ''found leader in entity ['' leaderEntityId of
        Inl e \<Rightarrow> Inl e
      | Inr s1 \<Rightarrow>
     (case py_concat (s1 @ ''] with brokerid ['') leaderBrokerId of
        Inl e \<Rightarrow> Inl e
      | Inr s2 \<Rightarrow>
     (case dict_get leaderDict ''partition'' of
        Inl e \<Rightarrow> Inl e
      | Inr leaderPartition \<Rightarrow>
     (case py_concat (s2 @ ''] for partition ['') leaderPartition of
        Inl e \<Rightarrow> Inl e
      | Inr s3 \<Rightarrow> Inr (s3 @ '']'')))))))))"

text \<open>
  \<^verbatim>\<open>validate_leader_election_successful\<close>: every exception of the \<^verbatim>\<open>try\<close> body is an
  \<^verbatim>\<open>Exception\<close> and is caught; the function returns its verdict, the dictionary
  \<^verbatim>\<open>validationStatusDict\<close> it was given (here \<open>statusDict\<close>), updated, and the world.
\<close>

definition validate_leader_election_successful ::
  "testcaseEnv \<Rightarrow> leader_dict \<Rightarrow> (string \<rightharpoonup> string) \<Rightarrow> world
     \<Rightarrow> bool \<times> (string \<rightharpoonup> string) \<times> world" where
  "validate_leader_election_successful tenv leaderDict statusDict w =
     (if length leaderDict > 0 then
        (case leader_info_try tenv leaderDict of
           Inr msg \<Rightarrow>
             (True,
              statusDict(''Validate leader election successful'' \<mapsto> ''PASSED''),
              logger_log INFO msg w)
         | Inl e \<Rightarrow>
             (False,
              statusDict(''Validate leader election successful'' \<mapsto> ''FAILED''),
              py_print [PExc e]
                (py_print [PDict leaderDict]
                   (logger_log ERROR ''leader info not completed:'' w))))
      else
        (False,
         statusDict(''Validate leader election successful'' \<mapsto> ''FAILED''),
         w))"

section \<open>Concrete inputs\<close>

text \<open>
  Modelled from the spec: the lookups of the module \<^verbatim>\<open>system_test_utils\<close>, whose source
  is not at hand. The spec's data model makes \<^verbatim>\<open>entity_id\<close> the key of a cluster entity
  and of its testcase configuration; the lookups select the dictionaries of a list
  that hold a given value under a given key, and a field of them. They stand for the
  parameters of the model at concrete inputs only; the general theorems hold for every
  \<open>system_test_utils\<close>.
\<close>

definition lookup_dicts :: "dict list \<Rightarrow> string \<Rightarrow> string \<Rightarrow> dict list" where
  "lookup_dicts ds k v = filter (\<lambda>d. map_of d k = Some v) ds"

definition lookup_data :: "dict list \<Rightarrow> string \<Rightarrow> string \<Rightarrow> string \<Rightarrow> string list" where
  "lookup_data ds k v field = List.map_filter (\<lambda>d. map_of d field) (lookup_dicts ds k v)"

definition lookup_first :: "dict list \<Rightarrow> string \<Rightarrow> string \<Rightarrow> string \<Rightarrow> string" where
  "lookup_first ds k v field = (case lookup_data ds k v field of [] \<Rightarrow> [] | x # _ \<Rightarrow> x)"

definition example_utils ::
  "(string list \<Rightarrow> string \<Rightarrow> string list) \<Rightarrow> (string \<Rightarrow> string \<Rightarrow> string option list option)
     \<Rightarrow> system_test_utils" where
  "example_utils out rm =
     \<lparr>get_data_by_lookup_keyval = lookup_first,
      get_data_from_list_of_dicts = lookup_data,
      get_dict_from_list_of_dicts = lookup_dicts,
      subproc_stdout = out,
      re_match = rm,
      strptime_mktime = (\<lambda>s. if s = ''2014-01-01 00:00:00,500'' then Some 0.5 else None),
      abspath = (\<lambda>p. p)\<rparr>"

definition no_output :: "string list \<Rightarrow> string \<Rightarrow> string list" where
  "no_output history cmd = []"

definition no_match :: "string \<Rightarrow> string \<Rightarrow> string option list option" where
  "no_match pattern line = None"

text \<open>A world with the given local files, in which the paths under \<^verbatim>\<open>/tc/\<close> (the
  testcase directory, its \<^verbatim>\<open>config\<close> and \<^verbatim>\<open>logs\<close> directories created) can be written,
  and nothing logged, printed or issued yet.\<close>

definition world_of :: "(string \<rightharpoonup> string) \<Rightarrow> world" where
  "world_of fs = \<lparr>logged = [], stdout = [], files = fs,
                 writable = (\<lambda>path. startswith path ''/tc/''), issued = []\<rparr>"

definition example_tenv :: testcaseEnv where
  "example_tenv =
     \<lparr>testCaseBaseDir = ''/tc'',
      testCaseLogsDir = ''/tc/logs'',
      testcaseConfigsList = [],
      userDefinedEnvVarDict = [''producerLogPathName'' \<mapsto> ''/tc/logs/p.log'',
                               ''consumerLogPathName'' \<mapsto> ''/tc/logs/c.log''],
      entityParentPidDict = Map.empty,
      validationStatusDict = Map.empty\<rparr>"

definition example_senv :: systemTestEnv where
  "example_senv =
     \<lparr>clusterEntityConfigDictList =
        [[(''entity_id'', ''4''), (''role'', ''console_consumer''), (''hostname'', ''h4'')]]\<rparr>"

text \<open>A producer log with the identifiers 1 and 2, and consumer logs with both of them
  and with the first only.\<close>

definition logs_matched :: "string \<rightharpoonup> string" where
  "logs_matched =
     [''/tc/logs/p.log'' \<mapsto> ''MessageID:1:'' @ [NL] @ ''MessageID:2:'' @ [NL],
      ''/tc/logs/c.log'' \<mapsto> ''x MessageID:2:y'' @ [NL] @ ''MessageID:1:'' @ [NL]]"

definition logs_missing :: "string \<rightharpoonup> string" where
  "logs_missing =
     [''/tc/logs/p.log'' \<mapsto> ''MessageID:1:'' @ [NL] @ ''MessageID:2:'' @ [NL],
      ''/tc/logs/c.log'' \<mapsto> ''MessageID:1:'' @ [NL]]"

text \<open>
  The leader fact is complete when it holds a broker id, an entity id and a partition
  that are strings, a hostname, and the process id of that entity is on record.
\<close>

definition leader_info_complete :: "testcaseEnv \<Rightarrow> leader_dict \<Rightarrow> bool" where
  "leader_info_complete tenv leaderDict =
     (case (map_of leaderDict ''brokerid'', map_of leaderDict ''entity_id'',
            map_of leaderDict ''hostname'', map_of leaderDict ''partition'') of
        (Some (Str brokerid), Some (Str entity_id), Some hostname, Some (Str p)) \<Rightarrow>
          entityParentPidDict tenv entity_id \<noteq> None
      | _ \<Rightarrow> False)"

text \<open>A testcase environment with the process id of entity 1 on record, a leader fact
  with the entity and its host only, and a complete leader fact.\<close>

definition leader_tenv :: testcaseEnv where
  "leader_tenv = example_tenv\<lparr>entityParentPidDict := [''1'' \<mapsto> ''4242'']\<rparr>"

definition leader_partial :: leader_dict where
  "leader_partial = [(''entity_id'', Str ''1''), (''hostname'', Str ''h1'')]"

definition leader_full :: leader_dict where
  "leader_full = [(''entity_id'', Str ''1''), (''hostname'', Str ''h1''),
                  (''timestamp'', Float 0.5), (''brokerid'', Str ''1''),
                  (''topic'', Str ''test_1''), (''partition'', Str ''0'')]"

text \<open>
  Two brokers, 1 on \<open>h1\<close> and 2 on \<open>h2\<close>. The log of broker 1 holds a line with the
  leader-election marker, the log of broker 2 holds none; the pattern gives the four
  groups of the line (timestamp, broker id 1, topic, partition).
\<close>

definition two_brokers_senv :: systemTestEnv where
  "two_brokers_senv =
     \<lparr>clusterEntityConfigDictList =
        [[(''entity_id'', ''1''), (''hostname'', ''h1''), (''role'', ''broker'')],
         [(''entity_id'', ''2''), (''hostname'', ''h2''), (''role'', ''broker'')]]\<rparr>"

definition two_brokers_tenv :: testcaseEnv where
  "two_brokers_tenv =
     \<lparr>testCaseBaseDir = ''/tc'',
      testCaseLogsDir = ''/tc/logs'',
      testcaseConfigsList =
        [[(''entity_id'', ''1''), (''log_filename'', ''kafka_server_1.log'')],
         [(''entity_id'', ''2''), (''log_filename'', ''kafka_server_2.log'')]],
      userDefinedEnvVarDict =
        [''LEADER_ELECTION_COMPLETED_MSG'' \<mapsto> ''completed the leader state transition'',
         ''REGX_LEADER_ELECTION_PATTERN'' \<mapsto> ''pattern''],
      entityParentPidDict = Map.empty,
      validationStatusDict = Map.empty\<rparr>"

definition broker1_output :: "string list \<Rightarrow> string \<Rightarrow> string list" where
  "broker1_output history cmd =
     (if py_in ''kafka_server_1.log'' cmd
      then [''[2014-01-01 00:00:00,500] completed the leader state transition'' @ [NL]]
      else [])"

definition leader_groups :: "string \<Rightarrow> string \<Rightarrow> string option list option" where
  "leader_groups pattern line =
     Some [Some ''2014-01-01 00:00:00,500'', Some ''1'', Some ''test_1'', Some ''0'']"

text \<open>A producer log whose last line was cut before the colon that closes the
  identifier, and a pid marker file with the line \<^verbatim>\<open>pid:5150\<close>.\<close>

definition truncated_log :: "string \<rightharpoonup> string" where
  "truncated_log =
     [''/tc/logs/p.log'' \<mapsto> ''MessageID:41:'' @ [NL] @ ''MessageID:42'' @ [NL]]"

definition pid_output :: "string list \<Rightarrow> string \<Rightarrow> string list" where
  "pid_output history cmd = [''pid:5150'' @ [NL]]"




text \<open>
  The rendering of a template line as the specification words it: the key of a line is
  the text before its first \<^verbatim>\<open>=\<close>; a line whose key has an entry in the settings becomes
  \<^verbatim>\<open>key=value\<close> and a newline, every other line stays as it is.
\<close>

definition line_key :: "string \<Rightarrow> string option" where
  "line_key line =
     (if CHR ''='' \<in> set line then Some (takeWhile (\<lambda>c. c \<noteq> CHR ''='') line) else None)"

definition render_line :: "dict \<Rightarrow> string \<Rightarrow> string" where
  "render_line settings line =
     (case line_key line of
        None \<Rightarrow> line
      | Some key \<Rightarrow>
          (case map_of settings key of
             None \<Rightarrow> line
           | Some val \<Rightarrow> key @ ''='' @ val @ [NL]))"

text \<open>No key of the settings contains the character \<^verbatim>\<open>=\<close>.\<close>

definition eq_free_keys :: "dict \<Rightarrow> bool" where
  "eq_free_keys settings = list_all (\<lambda>(key, val). CHR ''='' \<notin> set key) settings"


text \<open>The settings and the template of the specification's example.\<close>

definition zk_settings :: dict where
  "zk_settings = [(''zk.connect'', ''h1:2181,h2:2181'')]"

definition server_template :: "string \<rightharpoonup> string" where
  "server_template =
     [''/suite/config/server.properties'' \<mapsto>
        ''# broker'' @ [NL] @ ''zk.connect=OLD'' @ [NL] @ ''brokerid=1'' @ [NL]]"

text \<open>
  The connection string as the specification words it: \<^verbatim>\<open>hostname:clientPort\<close> of
  every coordination node, comma-separated, the first entry without a leading comma.
\<close>

fun connection_string :: "(string \<times> string) list \<Rightarrow> string" where
  "connection_string [] = []"
| "connection_string ((hostname, clientPort) # rest) =
     hostname @ '':'' @ clientPort
       @ concat (map (\<lambda>(hostname, clientPort). '','' @ hostname @ '':'' @ clientPort) rest)"


text \<open>The connection string after further coordination nodes are appended to \<open>s\<close>, one
  at a time, as \<^verbatim>\<open>start_entity_in_background\<close> does.\<close>

fun zk_accumulate :: "string \<Rightarrow> (string \<times> string) list \<Rightarrow> string" where
  "zk_accumulate s [] = s"
| "zk_accumulate s ((hostname, clientPort) # rest) =
     zk_accumulate ((if s = [] then [] else s @ '','') @ hostname @ '':'' @ clientPort) rest"

text \<open>Three coordination nodes on \<open>h1\<close>, \<open>h2\<close> and \<open>h3\<close>, each with client port 2181,
  and an empty connection string to start from.\<close>

definition three_zk_senv :: systemTestEnv where
  "three_zk_senv =
     \<lparr>clusterEntityConfigDictList =
        [[(''entity_id'', ''0''), (''hostname'', ''h1''), (''role'', ''zookeeper'')],
         [(''entity_id'', ''1''), (''hostname'', ''h2''), (''role'', ''zookeeper'')],
         [(''entity_id'', ''2''), (''hostname'', ''h3''), (''role'', ''zookeeper'')]]\<rparr>"

definition three_zk_tenv :: testcaseEnv where
  "three_zk_tenv =
     \<lparr>testCaseBaseDir = ''/tc'',
      testCaseLogsDir = ''/tc/logs'',
      testcaseConfigsList =
        [[(''entity_id'', ''0''), (''clientPort'', ''2181'')],
         [(''entity_id'', ''1''), (''clientPort'', ''2181'')],
         [(''entity_id'', ''2''), (''clientPort'', ''2181'')]],
      userDefinedEnvVarDict = [''zkConnectStr'' \<mapsto> []],
      entityParentPidDict = Map.empty,
      validationStatusDict = Map.empty\<rparr>"

section \<open>Properties of the primitives\<close>

lemma takeWhile_excl: "x \<notin> set (takeWhile (\<lambda>y. y \<noteq> x) xs)"
  by (auto dest: set_takeWhileD)

lemma readlines_terminated:
  "NL \<notin> set x \<Longrightarrow> readlines (x @ NL # rest) = (x @ [NL]) # readlines rest"
  by (induction x) auto

lemma readlines_concat:
  "\<forall>g \<in> set ids. NL \<notin> set g
     \<Longrightarrow> readlines (concat (map (\<lambda>id. id @ [NL]) ids)) = map (\<lambda>id. id @ [NL]) ids"
  by (induction ids) (auto simp: readlines_terminated)

lemma resolve_default:
  "get_testcase_config_log_dir_pathname tenv role entityId ''default'' w
     = (testCaseLogsDir tenv @ ''/'' @ role @ ''-'' @ entityId, w)"
  by (simp add: get_testcase_config_log_dir_pathname_def)

section \<open>Message identifiers: what the extraction returns\<close>

lemma find_msgid_chars:
  "find_msgid s = Some g \<Longrightarrow> set g \<subseteq> set s \<and> CHR '':'' \<notin> set g"
proof (induction s arbitrary: g)
  case Nil
  then show ?case by simp
next
  case (Cons c cs)
  show ?case
  proof (cases "find_msgid cs")
    case (Some g')
    with Cons.prems have "g' = g" by simp
    with Some Cons.IH[of g] show ?thesis by auto
  next
    case None
    with Cons.prems have g: "g = takeWhile (\<lambda>x. x \<noteq> CHR '':'') (drop 10 (c # cs))"
      by (simp add: Let_def split: if_splits)
    have "set g \<subseteq> set (drop 10 (c # cs))"
      unfolding g by (rule set_takeWhileD[THEN conjunct1, THEN subsetI])
    moreover have "set (drop 10 (c # cs)) \<subseteq> set (c # cs)"
      by (rule set_drop_subset)
    moreover have "CHR '':'' \<notin> set g"
      unfolding g by (rule takeWhile_excl)
    ultimately show ?thesis by blast
  qed
qed

lemma re_match_MessageID_chars:
  assumes "re_match_MessageID line = Some g"
  shows "NL \<notin> set g \<and> CHR '':'' \<notin> set g"
proof -
  from assms have "set g \<subseteq> set (takeWhile (\<lambda>x. x \<noteq> NL) line) \<and> CHR '':'' \<notin> set g"
    unfolding re_match_MessageID_def by (rule find_msgid_chars)
  moreover have "NL \<notin> set (takeWhile (\<lambda>x. x \<noteq> NL) line)"
    by (rule takeWhile_excl)
  ultimately show ?thesis by blast
qed

lemma get_message_id_loop_chars:
  "get_message_id_loop ls acc = Inr ids \<Longrightarrow> \<forall>g \<in> set acc. NL \<notin> set g
     \<Longrightarrow> \<forall>g \<in> set ids. NL \<notin> set g"
proof (induction ls arbitrary: acc)
  case Nil
  then show ?case by simp
next
  case (Cons l ls)
  show ?case
  proof (cases "py_in ''MessageID'' l")
    case False
    with Cons.prems(1) have "get_message_id_loop ls acc = Inr ids" by simp
    then show ?thesis using Cons.prems(2) by (rule Cons.IH)
  next
    case True
    show ?thesis
    proof (cases "re_match_MessageID l")
      case None
      with True Cons.prems(1) show ?thesis by simp
    next
      case (Some g)
      with True Cons.prems(1) have "get_message_id_loop ls (acc @ [g]) = Inr ids" by simp
      moreover have "\<forall>x \<in> set (acc @ [g]). NL \<notin> set x"
        using Cons.prems(2) re_match_MessageID_chars[OF Some] by simp
      ultimately show ?thesis by (rule Cons.IH)
    qed
  qed
qed

lemma get_message_id_no_newline:
  assumes "get_message_id fs p = Inr ids"
  shows "\<forall>g \<in> set ids. NL \<notin> set g"
proof -
  from assms obtain content where "get_message_id_loop (readlines content) [] = Inr ids"
    by (auto simp: get_message_id_def split: option.splits)
  then show ?thesis by (rule get_message_id_loop_chars) simp
qed

lemma logs_matched_producer: "get_message_id logs_matched ''/tc/logs/p.log'' = Inr [''1'', ''2'']"
  by code_simp

lemma logs_matched_consumer: "get_message_id logs_matched ''/tc/logs/c.log'' = Inr [''2'', ''1'']"
  by code_simp

lemma logs_missing_producer: "get_message_id logs_missing ''/tc/logs/p.log'' = Inr [''1'', ''2'']"
  by code_simp

lemma logs_missing_consumer: "get_message_id logs_missing ''/tc/logs/c.log'' = Inr [''1'']"
  by code_simp

section \<open>Validation of the message sets: the verdict\<close>

lemma validate_data_matched_unfold:
  assumes "userDefinedEnvVarDict tenv ''producerLogPathName'' = Some pp"
      and "userDefinedEnvVarDict tenv ''consumerLogPathName'' = Some cp"
      and "get_message_id (files w) pp = Inr P"
      and "get_message_id (files w) cp = Inr C"
  shows "validate_data_matched U senv tenv w =
     (let path = testCaseLogsDir tenv @ ''/console_consumer-''
                   @ get_data_by_lookup_keyval U (clusterEntityConfigDictList senv)
                       ''role'' ''console_consumer'' ''entity_id''
                   @ ''/msg_id_missing_in_consumer.log'';
          missing = set_minus (py_set P) (py_set C)
      in if \<not> writable w path then Inl (IOError path)
      else
      (let w4 = logger_log INFO (''no. of unique messages received by consumer : ''
                   @ str_nat (length (py_set P)))
                (logger_log INFO (''no. of unique messages sent from publisher  : ''
                   @ str_nat (length (py_set P)))
                  (w\<lparr>files := (files w)(path \<mapsto> concat (map (\<lambda>id. id @ [NL]) missing))\<rparr>))
      in if set P \<subseteq> set C \<and> P \<noteq> [] then
           Inr (True, tenv\<lparr>validationStatusDict :=
                  (validationStatusDict tenv)(''Validate for data matched'' \<mapsto> ''PASSED'')\<rparr>, w4)
         else
           Inr (False, tenv\<lparr>validationStatusDict :=
                  (validationStatusDict tenv)(''Validate for data matched'' \<mapsto> ''FAILED'')\<rparr>,
                logger_log INFO (''See '' @ path @ '' for missing MessageID'') w4)))"
proof -
  have len0: "(length (set_minus (py_set P) (py_set C)) = 0) = (set P \<subseteq> set C)"
    by (auto simp: set_minus_def py_set_def filter_empty_conv)
  have lenP: "(length (py_set P) > 0) = (P \<noteq> [])"
    by (simp add: py_set_def)
  show ?thesis
    unfolding validate_data_matched_def
    using assms len0 lenP
    by (simp add: resolve_default map_get_def open_write_def Let_def
             del: length_0_conv length_greater_0_conv)
qed

lemma validate_data_matched_unwritable:
  assumes "userDefinedEnvVarDict tenv ''producerLogPathName'' = Some pp"
      and "userDefinedEnvVarDict tenv ''consumerLogPathName'' = Some cp"
      and "get_message_id (files w) pp = Inr P"
      and "get_message_id (files w) cp = Inr C"
      and "\<not> writable w (testCaseLogsDir tenv @ ''/console_consumer-''
                   @ get_data_by_lookup_keyval U (clusterEntityConfigDictList senv)
                       ''role'' ''console_consumer'' ''entity_id''
                   @ ''/msg_id_missing_in_consumer.log'')"
  shows "validate_data_matched U senv tenv w
           = Inl (IOError (testCaseLogsDir tenv @ ''/console_consumer-''
                   @ get_data_by_lookup_keyval U (clusterEntityConfigDictList senv)
                       ''role'' ''console_consumer'' ''entity_id''
                   @ ''/msg_id_missing_in_consumer.log''))"
  unfolding validate_data_matched_unfold[OF assms(1-4)] Let_def using assms(5) by simp

text \<open>
  Claim C1. Let \<open>P\<close> and \<open>C\<close> be the message identifiers that \<^verbatim>\<open>get_message_id\<close>
  extracts from the producer's and the consumer's log, and let the file of the missing
  identifiers be writable (otherwise \<^verbatim>\<open>open\<close> raises IOError before any verdict is
  recorded, see \<open>validate_data_matched_unwritable\<close>). Then \<^verbatim>\<open>validate_data_matched\<close>
  returns; it returns True and records PASSED under "Validate for data matched" if and
  only if \<open>P - C\<close> is empty and \<open>P\<close> is not, and it returns False and records FAILED
  otherwise. In particular an empty \<open>P\<close> gives FAILED, whatever \<open>C\<close> is.
\<close>

theorem validate_data_matched_passed_iff:
  assumes "userDefinedEnvVarDict tenv ''producerLogPathName'' = Some pp"
      and "userDefinedEnvVarDict tenv ''consumerLogPathName'' = Some cp"
      and "get_message_id (files w) pp = Inr P"
      and "get_message_id (files w) cp = Inr C"
      and "writable w (testCaseLogsDir tenv @ ''/console_consumer-''
                   @ get_data_by_lookup_keyval U (clusterEntityConfigDictList senv)
                       ''role'' ''console_consumer'' ''entity_id''
                   @ ''/msg_id_missing_in_consumer.log'')"
  shows "\<exists>tenv' w'.
           validate_data_matched U senv tenv w
             = Inr (set P - set C = {} \<and> set P \<noteq> {}, tenv', w')
         \<and> validationStatusDict tenv' ''Validate for data matched''
             = Some (if set P - set C = {} \<and> set P \<noteq> {} then ''PASSED'' else ''FAILED'')
         \<and> (set P = {} \<longrightarrow>
               validationStatusDict tenv' ''Validate for data matched'' = Some ''FAILED'')"
proof (cases "set P \<subseteq> set C \<and> P \<noteq> []")
  case True
  then have "set P - set C = {} \<and> set P \<noteq> {}" by auto
  with True assms(5) show ?thesis
    unfolding validate_data_matched_unfold[OF assms(1-4)] Let_def by simp
next
  case False
  then have "\<not> (set P - set C = {} \<and> set P \<noteq> {})" by auto
  with False assms(5) show ?thesis
    unfolding validate_data_matched_unfold[OF assms(1-4)] Let_def by simp
qed

lemma example_missing_path:
  "testCaseLogsDir example_tenv @ ''/console_consumer-''
     @ get_data_by_lookup_keyval (example_utils no_output no_match)
         (clusterEntityConfigDictList example_senv) ''role'' ''console_consumer'' ''entity_id''
     @ ''/msg_id_missing_in_consumer.log''
   = ''/tc/logs/console_consumer-4/msg_id_missing_in_consumer.log''"
  by code_simp

lemma example_missing_path_writable:
  "writable (world_of fs) ''/tc/logs/console_consumer-4/msg_id_missing_in_consumer.log''"
  by (simp add: world_of_def)

theorem validate_data_matched_passed_iff_witness:
  "\<exists>tenv' w'.
     validate_data_matched (example_utils no_output no_match) example_senv example_tenv
       (world_of logs_matched) = Inr (True, tenv', w')
     \<and> validationStatusDict tenv' ''Validate for data matched'' = Some ''PASSED''"
proof -
  have h1: "userDefinedEnvVarDict example_tenv ''producerLogPathName'' = Some ''/tc/logs/p.log''"
    by (simp add: example_tenv_def)
  have h2: "userDefinedEnvVarDict example_tenv ''consumerLogPathName'' = Some ''/tc/logs/c.log''"
    by (simp add: example_tenv_def)
  have h3: "get_message_id (files (world_of logs_matched)) ''/tc/logs/p.log'' = Inr [''1'', ''2'']"
    unfolding world_of_def using logs_matched_producer by simp
  have h4: "get_message_id (files (world_of logs_matched)) ''/tc/logs/c.log'' = Inr [''2'', ''1'']"
    unfolding world_of_def using logs_matched_consumer by simp
  have h5: "writable (world_of logs_matched)
              (testCaseLogsDir example_tenv @ ''/console_consumer-''
                 @ get_data_by_lookup_keyval (example_utils no_output no_match)
                     (clusterEntityConfigDictList example_senv)
                     ''role'' ''console_consumer'' ''entity_id''
                 @ ''/msg_id_missing_in_consumer.log'')"
    unfolding example_missing_path by (rule example_missing_path_writable)
  have s: "(set [''1'', ''2''] - set [''2'', ''1''] = {}
            \<and> set [''1'', ''2''] \<noteq> ({}::string set)) = True"
    by auto
  from validate_data_matched_passed_iff[OF h1 h2 h3 h4 h5]
  show ?thesis unfolding s by auto
qed

section \<open>Validation of the message sets: the log of missing identifiers\<close>

lemma distinct_set_singleton: "distinct xs \<Longrightarrow> set xs = {x} \<Longrightarrow> xs = [x]"
  by (cases xs) (auto simp: subset_singleton_iff)

text \<open>
  Claim C6. Let \<open>P\<close> and \<open>C\<close> be the identifiers extracted from the producer's and the
  consumer's log, with \<open>P\<close> not a subset of \<open>C\<close>, and let the file
  \<^verbatim>\<open>msg_id_missing_in_consumer.log\<close> of the consumer's log directory be writable
  (otherwise \<^verbatim>\<open>open\<close> raises IOError and nothing is written or recorded). Then
  \<^verbatim>\<open>validate_data_matched\<close> returns False, records FAILED, and leaves in that file
  exactly the elements of \<open>P - C\<close>, each once and each on a line of its own (reading
  the file back line by line gives the identifiers, each followed by its newline).
\<close>

theorem validate_data_matched_missing_ids:
  assumes "userDefinedEnvVarDict tenv ''producerLogPathName'' = Some pp"
      and "userDefinedEnvVarDict tenv ''consumerLogPathName'' = Some cp"
      and "get_message_id (files w) pp = Inr P"
      and "get_message_id (files w) cp = Inr C"
      and "writable w (testCaseLogsDir tenv @ ''/console_consumer-''
                   @ get_data_by_lookup_keyval U (clusterEntityConfigDictList senv)
                       ''role'' ''console_consumer'' ''entity_id''
                   @ ''/msg_id_missing_in_consumer.log'')"
      and "\<not> set P \<subseteq> set C"
  shows "\<exists>tenv' w' ids.
           validate_data_matched U senv tenv w = Inr (False, tenv', w')
         \<and> validationStatusDict tenv' ''Validate for data matched'' = Some ''FAILED''
         \<and> files w' (testCaseLogsDir tenv @ ''/console_consumer-''
                       @ get_data_by_lookup_keyval U (clusterEntityConfigDictList senv)
                           ''role'' ''console_consumer'' ''entity_id''
                       @ ''/msg_id_missing_in_consumer.log'')
             = Some (concat (map (\<lambda>id. id @ [NL]) ids))
         \<and> readlines (concat (map (\<lambda>id. id @ [NL]) ids)) = map (\<lambda>id. id @ [NL]) ids
         \<and> distinct ids
         \<and> set ids = set P - set C"
proof -
  define ids where "ids = set_minus (py_set P) (py_set C)"
  define path where "path = testCaseLogsDir tenv @ ''/console_consumer-''
                       @ get_data_by_lookup_keyval U (clusterEntityConfigDictList senv)
                           ''role'' ''console_consumer'' ''entity_id''
                       @ ''/msg_id_missing_in_consumer.log''"
  define tenv' where "tenv' = tenv\<lparr>validationStatusDict :=
                  (validationStatusDict tenv)(''Validate for data matched'' \<mapsto> ''FAILED'')\<rparr>"
  define w' where "w' = logger_log INFO (''See '' @ path @ '' for missing MessageID'')
              (logger_log INFO (''no. of unique messages received by consumer : ''
                   @ str_nat (length (py_set P)))
                (logger_log INFO (''no. of unique messages sent from publisher  : ''
                   @ str_nat (length (py_set P)))
                  (w\<lparr>files := (files w)(path \<mapsto> concat (map (\<lambda>id. id @ [NL]) ids))\<rparr>)))"
  have nl: "\<forall>g \<in> set ids. NL \<notin> set g"
    using get_message_id_no_newline[OF assms(3)] by (simp add: ids_def set_minus_def py_set_def)
  have rl: "readlines (concat (map (\<lambda>id. id @ [NL]) ids)) = map (\<lambda>id. id @ [NL]) ids"
    using nl by (rule readlines_concat)
  have d: "distinct ids" by (simp add: ids_def set_minus_def py_set_def)
  have s: "set ids = set P - set C" by (auto simp: ids_def set_minus_def py_set_def)
  have r: "validate_data_matched U senv tenv w = Inr (False, tenv', w')"
    unfolding validate_data_matched_unfold[OF assms(1-4)] Let_def tenv'_def w'_def path_def ids_def
    using assms(5,6) by simp
  have v: "validationStatusDict tenv' ''Validate for data matched'' = Some ''FAILED''"
    by (simp add: tenv'_def)
  have f: "files w' path = Some (concat (map (\<lambda>id. id @ [NL]) ids))"
    by (simp add: w'_def logger_log_def)
  from r v f rl d s show ?thesis unfolding path_def by blast
qed

theorem validate_data_matched_missing_ids_witness:
  "\<exists>tenv' w'.
     validate_data_matched (example_utils no_output no_match) example_senv example_tenv
       (world_of logs_missing) = Inr (False, tenv', w')
     \<and> validationStatusDict tenv' ''Validate for data matched'' = Some ''FAILED''
     \<and> files w' ''/tc/logs/console_consumer-4/msg_id_missing_in_consumer.log''
         = Some (''2'' @ [NL])"
proof -
  have h1: "userDefinedEnvVarDict example_tenv ''producerLogPathName'' = Some ''/tc/logs/p.log''"
    by (simp add: example_tenv_def)
  have h2: "userDefinedEnvVarDict example_tenv ''consumerLogPathName'' = Some ''/tc/logs/c.log''"
    by (simp add: example_tenv_def)
  have h3: "get_message_id (files (world_of logs_missing)) ''/tc/logs/p.log'' = Inr [''1'', ''2'']"
    unfolding world_of_def using logs_missing_producer by simp
  have h4: "get_message_id (files (world_of logs_missing)) ''/tc/logs/c.log'' = Inr [''1'']"
    unfolding world_of_def using logs_missing_consumer by simp
  have h5: "writable (world_of logs_missing)
              (testCaseLogsDir example_tenv @ ''/console_consumer-''
                 @ get_data_by_lookup_keyval (example_utils no_output no_match)
                     (clusterEntityConfigDictList example_senv)
                     ''role'' ''console_consumer'' ''entity_id''
                 @ ''/msg_id_missing_in_consumer.log'')"
    unfolding example_missing_path by (rule example_missing_path_writable)
  have h6: "\<not> set [''1'', ''2''] \<subseteq> set [''1'']"
    by simp
  from validate_data_matched_missing_ids[OF h1 h2 h3 h4 h5 h6]
  obtain tenv' w' ids where
    r: "validate_data_matched (example_utils no_output no_match) example_senv example_tenv
          (world_of logs_missing) = Inr (False, tenv', w')"
    and v: "validationStatusDict tenv' ''Validate for data matched'' = Some ''FAILED''"
    and f: "files w' ''/tc/logs/console_consumer-4/msg_id_missing_in_consumer.log''
              = Some (concat (map (\<lambda>id. id @ [NL]) ids))"
    and d: "distinct ids" and s: "set ids = set [''1'', ''2''] - set [''1'']"
    unfolding example_missing_path by blast
  from s have "set ids = {''2''}" by auto
  with d have "ids = [''2'']" by (rule distinct_set_singleton)
  with r v f show ?thesis by simp
qed

section \<open>Path resolver: the resolved paths\<close>

text \<open>
  Claim C9. For every environment, role and entity: the purpose "metrics" resolves to
  \<open>logsDir/role-entityId/metrics\<close>; the purpose "dashboards" resolves to
  \<open>logsDir/dashboards\<close>, whatever the role and the entity; and a purpose that is none
  of "metrics", "default", "dashboards" and "config" logs two errors and returns the
  path of the purpose "default", \<open>logsDir/role-entityId\<close>. The function has no way to
  abort: it always returns a path.
\<close>

theorem resolve_paths:
  "get_testcase_config_log_dir_pathname tenv role entityId ''metrics'' w
     = (testCaseLogsDir tenv @ ''/'' @ role @ ''-'' @ entityId @ ''/metrics'', w)
   \<and> get_testcase_config_log_dir_pathname tenv role entityId ''dashboards'' w
     = (testCaseLogsDir tenv @ ''/dashboards'', w)
   \<and> (type \<notin> {''metrics'', ''default'', ''dashboards'', ''config''} \<longrightarrow>
        get_testcase_config_log_dir_pathname tenv role entityId type w
          = (fst (get_testcase_config_log_dir_pathname tenv role entityId ''default'' w),
             w\<lparr>logged := logged w @
                 [(ERROR, ''unrecognized log directory type : '' @ type),
                  (ERROR, ''returning default log dir : ''
                            @ testCaseLogsDir tenv @ ''/'' @ role @ ''-'' @ entityId)]\<rparr>)
        \<and> fst (get_testcase_config_log_dir_pathname tenv role entityId ''default'' w)
          = testCaseLogsDir tenv @ ''/'' @ role @ ''-'' @ entityId)"
  by (simp add: get_testcase_config_log_dir_pathname_def logger_log_def Let_def)


theorem resolve_paths_witness:
  "get_testcase_config_log_dir_pathname example_tenv ''broker'' ''e1'' ''metrics'' (world_of Map.empty)
     = (''/tc/logs/broker-e1/metrics'', world_of Map.empty)
   \<and> get_testcase_config_log_dir_pathname example_tenv ''broker'' ''e1'' ''dashboards'' (world_of Map.empty)
     = (''/tc/logs/dashboards'', world_of Map.empty)
   \<and> get_testcase_config_log_dir_pathname example_tenv ''broker'' ''e1'' ''bogus'' (world_of Map.empty)
     = (''/tc/logs/broker-e1'',
        (world_of Map.empty)\<lparr>logged :=
           [(ERROR, ''unrecognized log directory type : bogus''),
            (ERROR, ''returning default log dir : /tc/logs/broker-e1'')]\<rparr>)"
  using resolve_paths[of example_tenv "''broker''" "''e1''" "world_of Map.empty" "''bogus''"]
  by (simp add: example_tenv_def world_of_def)

section \<open>Validation of the leader election: the verdict\<close>

lemma leader_info_try_complete:
  "(\<exists>msg. leader_info_try tenv leaderDict = Inr msg) = leader_info_complete tenv leaderDict"
  unfolding leader_info_try_def leader_info_complete_def dict_get_def pid_lookup_def
    map_get_def py_concat_def
  by (simp split: option.split pyval.split)

text \<open>
  Claim C2, as amended. \<^verbatim>\<open>validate_leader_election_successful\<close> always returns (no
  exception leaves it). It returns True and records PASSED under "Validate leader
  election successful" if and only if the leader fact is complete: it holds the fields
  brokerid, entity_id, hostname and partition (the three that are concatenated being
  strings) and a process id is on record for its entity_id. Otherwise it returns False
  and records FAILED; when the fact is not empty, the logger then records the error
  "leader info not completed:" and the fact and the exception are printed on the
  standard output.
\<close>

theorem validate_leader_election_verdict:
  "fst (validate_leader_election_successful tenv leaderDict statusDict w)
     = leader_info_complete tenv leaderDict
   \<and> fst (snd (validate_leader_election_successful tenv leaderDict statusDict w))
     = statusDict(''Validate leader election successful'' \<mapsto>
         (if leader_info_complete tenv leaderDict then ''PASSED'' else ''FAILED''))
   \<and> (leaderDict \<noteq> [] \<and> \<not> leader_info_complete tenv leaderDict \<longrightarrow>
        (\<exists>e. leader_info_try tenv leaderDict = Inl e
           \<and> snd (snd (validate_leader_election_successful tenv leaderDict statusDict w))
               = py_print [PExc e] (py_print [PDict leaderDict]
                   (logger_log ERROR ''leader info not completed:'' w))))"
proof (cases "leader_info_try tenv leaderDict")
  case (Inl e)
  then have nc: "\<not> leader_info_complete tenv leaderDict"
    using leader_info_try_complete[of tenv leaderDict] by simp
  show ?thesis
  proof (cases "leaderDict = []")
    case True
    with nc show ?thesis by (simp add: validate_leader_election_successful_def)
  next
    case False
    with nc Inl show ?thesis by (simp add: validate_leader_election_successful_def)
  qed
next
  case (Inr msg)
  then have c: "leader_info_complete tenv leaderDict"
    using leader_info_try_complete[of tenv leaderDict] by auto
  then have "leaderDict \<noteq> []" by (auto simp: leader_info_complete_def)
  with c Inr show ?thesis by (simp add: validate_leader_election_successful_def)
qed

lemma leader_full_complete: "leader_info_complete leader_tenv leader_full"
  by (simp add: leader_info_complete_def leader_tenv_def leader_full_def)

lemma leader_partial_incomplete: "\<not> leader_info_complete leader_tenv leader_partial"
  by (simp add: leader_info_complete_def leader_tenv_def leader_partial_def)

lemma leader_partial_try:
  "leader_info_try leader_tenv leader_partial = Inl (KeyError (Str ''brokerid''))"
  by (simp add: leader_info_try_def leader_partial_def dict_get_def)

theorem validate_leader_election_verdict_witness:
  "validate_leader_election_successful leader_tenv leader_full Map.empty (world_of Map.empty)
     = (True, [''Validate leader election successful'' \<mapsto> ''PASSED''],
        snd (snd (validate_leader_election_successful leader_tenv leader_full Map.empty
                    (world_of Map.empty))))
   \<and> validate_leader_election_successful leader_tenv leader_partial Map.empty (world_of Map.empty)
     = (False, [''Validate leader election successful'' \<mapsto> ''FAILED''],
        py_print [PExc (KeyError (Str ''brokerid''))] (py_print [PDict leader_partial]
          (logger_log ERROR ''leader info not completed:'' (world_of Map.empty))))"
proof -
  have ne: "leader_partial \<noteq> []" by (simp add: leader_partial_def)
  from validate_leader_election_verdict[of leader_tenv leader_full Map.empty "world_of Map.empty"]
    leader_full_complete
  have a: "fst (validate_leader_election_successful leader_tenv leader_full Map.empty
                  (world_of Map.empty)) = True"
    and b: "fst (snd (validate_leader_election_successful leader_tenv leader_full Map.empty
                  (world_of Map.empty))) = [''Validate leader election successful'' \<mapsto> ''PASSED'']"
    by simp_all
  from validate_leader_election_verdict[of leader_tenv leader_partial Map.empty "world_of Map.empty"]
    leader_partial_incomplete ne leader_partial_try
  have c: "fst (validate_leader_election_successful leader_tenv leader_partial Map.empty
                  (world_of Map.empty)) = False"
    and d: "fst (snd (validate_leader_election_successful leader_tenv leader_partial Map.empty
                  (world_of Map.empty))) = [''Validate leader election successful'' \<mapsto> ''FAILED'']"
    and e: "snd (snd (validate_leader_election_successful leader_tenv leader_partial Map.empty
                  (world_of Map.empty)))
            = py_print [PExc (KeyError (Str ''brokerid''))] (py_print [PDict leader_partial]
                (logger_log ERROR ''leader info not completed:'' (world_of Map.empty)))"
    by simp_all
  show ?thesis
    using a b c d e by (simp add: prod_eq_iff)
qed

text \<open>
  The claim as stated fails: a fact that is not empty, with the process id of its
  entity on record, but without the broker id, is FAILED.
\<close>

theorem validate_leader_election_counterexample:
  "length leader_partial > 0
   \<and> map_of leader_partial ''entity_id'' = Some (Str ''1'')
   \<and> entityParentPidDict leader_tenv ''1'' = Some ''4242''
   \<and> fst (validate_leader_election_successful leader_tenv leader_partial Map.empty
             (world_of Map.empty)) = False
   \<and> fst (snd (validate_leader_election_successful leader_tenv leader_partial Map.empty
             (world_of Map.empty))) ''Validate leader election successful'' = Some ''FAILED''"
proof -
  have ne: "0 < length leader_partial" by (simp add: leader_partial_def)
  have v: "validate_leader_election_successful leader_tenv leader_partial Map.empty
             (world_of Map.empty)
           = (False, [''Validate leader election successful'' \<mapsto> ''FAILED''],
              py_print [PExc (KeyError (Str ''brokerid''))] (py_print [PDict leader_partial]
                (logger_log ERROR ''leader info not completed:'' (world_of Map.empty))))"
    using ne leader_partial_try by (simp add: validate_leader_election_successful_def)
  have e: "map_of leader_partial ''entity_id'' = Some (Str ''1'')"
    by (simp add: leader_partial_def)
  have p: "entityParentPidDict leader_tenv ''1'' = Some ''4242''"
    by (simp add: leader_tenv_def)
  show ?thesis unfolding v using ne e p by simp
qed

section \<open>Leader-election fact: the entity it names\<close>

lemma map_of_dict_set:
  "map_of (dict_set d k v) k' = (if k' = k then Some v else map_of d k')"
  by (induction d k v rule: dict_set.induct) auto

lemma leader_try_body_keeps:
  assumes "k \<noteq> ''timestamp''" and "k \<noteq> ''brokerid''" and "k \<noteq> ''topic''"
      and "k \<noteq> ''partition''"
  shows "map_of (fst (leader_try_body U tenv line leaderDict)) k = map_of leaderDict k"
  using assms unfolding leader_try_body_def Let_def
  by (simp add: map_of_dict_set split: sum.split option.split)

lemma leader_line_loop_returns:
  assumes "userDefinedEnvVarDict tenv ''LEADER_ELECTION_COMPLETED_MSG'' = Some msg"
  shows "\<exists>d' w'. leader_line_loop U tenv lines leaderDict w = Inr (d', w')
           \<and> map_of d' ''entity_id'' = map_of leaderDict ''entity_id''
           \<and> map_of d' ''hostname'' = map_of leaderDict ''hostname''"
proof (induction lines arbitrary: leaderDict w)
  case Nil
  show ?case by simp
next
  case (Cons line0 lines)
  show ?case
  proof (cases "py_in msg (rstrip_nl line0)")
    case False
    with assms have "leader_line_loop U tenv (line0 # lines) leaderDict w
                       = leader_line_loop U tenv lines leaderDict w"
      by (simp add: map_get_def Let_def)
    with Cons.IH[of leaderDict w] show ?thesis by simp
  next
    case True
    obtain d1 raised where tb: "leader_try_body U tenv (rstrip_nl line0) leaderDict = (d1, raised)"
      by (cases "leader_try_body U tenv (rstrip_nl line0) leaderDict")
    have e: "map_of d1 ''entity_id'' = map_of leaderDict ''entity_id''"
      using leader_try_body_keeps[of "''entity_id''" U tenv "rstrip_nl line0" leaderDict] tb
      by simp
    have h: "map_of d1 ''hostname'' = map_of leaderDict ''hostname''"
      using leader_try_body_keeps[of "''hostname''" U tenv "rstrip_nl line0" leaderDict] tb
      by simp
    from True assms tb obtain w2 where
      "leader_line_loop U tenv (line0 # lines) leaderDict w = leader_line_loop U tenv lines d1 w2"
      by (simp add: map_get_def Let_def)
    with Cons.IH[of d1 w2] e h show ?thesis by simp
  qed
qed

lemma leader_broker_loop_returns:
  assumes "userDefinedEnvVarDict tenv ''LEADER_ELECTION_COMPLETED_MSG'' = Some msg"
  shows "\<exists>d' w'. leader_broker_loop U senv tenv brokers leaderDict w = Inr (d', w')
           \<and> (if brokers = [] then d' = leaderDict
               else map_of d' ''entity_id'' = Some (Str (last brokers))
                  \<and> map_of d' ''hostname''
                      = Some (Str (get_data_by_lookup_keyval U (clusterEntityConfigDictList senv)
                                     ''entity_id'' (last brokers) ''hostname'')))"
proof (induction brokers arbitrary: leaderDict w)
  case Nil
  show ?case by simp
next
  case (Cons b bs)
  define hostname where "hostname = get_data_by_lookup_keyval U (clusterEntityConfigDictList senv)
                                     ''entity_id'' b ''hostname''"
  define d2 where "d2 = dict_set (dict_set leaderDict ''entity_id'' (Str b)) ''hostname'' (Str hostname)"
  have d2e: "map_of d2 ''entity_id'' = Some (Str b)"
    and d2h: "map_of d2 ''hostname'' = Some (Str hostname)"
    by (simp_all add: d2_def map_of_dict_set)
  obtain lines w3 where step:
    "leader_broker_loop U senv tenv (b # bs) leaderDict w =
       (case leader_line_loop U tenv lines d2 w3 of
          Inl e \<Rightarrow> Inl e
        | Inr (d3, w4) \<Rightarrow> leader_broker_loop U senv tenv bs d3 w4)"
    using assms
    by (simp add: map_get_def Let_def resolve_default sys_call_return_subproc_def d2_def hostname_def)
  from leader_line_loop_returns[OF assms, of U lines d2 w3] obtain d3 w4 where
    ll: "leader_line_loop U tenv lines d2 w3 = Inr (d3, w4)"
    and d3e: "map_of d3 ''entity_id'' = Some (Str b)"
    and d3h: "map_of d3 ''hostname'' = Some (Str hostname)"
    using d2e d2h by auto
  from step ll have eq: "leader_broker_loop U senv tenv (b # bs) leaderDict w
                           = leader_broker_loop U senv tenv bs d3 w4"
    by simp
  from Cons.IH[of d3 w4] obtain d' w' where
    r: "leader_broker_loop U senv tenv bs d3 w4 = Inr (d', w')"
    and i: "if bs = [] then d' = d3
            else map_of d' ''entity_id'' = Some (Str (last bs))
               \<and> map_of d' ''hostname''
                   = Some (Str (get_data_by_lookup_keyval U (clusterEntityConfigDictList senv)
                                  ''entity_id'' (last bs) ''hostname''))"
    by blast
  show ?case
  proof (cases "bs = []")
    case True
    with i have "d' = d3" by simp
    with eq r d3e d3h True show ?thesis by (simp add: hostname_def)
  next
    case False
    with eq r i show ?thesis by simp
  qed
qed

text \<open>
  Claim C10. Let the leader-election marker be defined in \<^verbatim>\<open>userDefinedEnvVarDict\<close> and
  the list of brokers be non-empty. Then \<^verbatim>\<open>get_leader_elected_log_line\<close> returns, for
  every output of the remote commands and every behaviour of the pattern match (also
  when no line matches), a dictionary that holds \<^verbatim>\<open>entity_id\<close> and \<^verbatim>\<open>hostname\<close> of the
  last broker of the list, and so is not empty. The witness is a run in which the
  matched line comes from the log of broker 1 (broker id 1) while the returned
  \<^verbatim>\<open>entity_id\<close> is that of broker 2.
\<close>

theorem leader_fact_names_last_broker:
  assumes "userDefinedEnvVarDict tenv ''LEADER_ELECTION_COMPLETED_MSG'' = Some msg"
      and "get_data_from_list_of_dicts U (clusterEntityConfigDictList senv)
             ''role'' ''broker'' ''entity_id'' = brokers"
      and "brokers \<noteq> []"
  shows "\<exists>leaderDict w'.
           get_leader_elected_log_line U senv tenv w = Inr (leaderDict, w')
         \<and> map_of leaderDict ''entity_id'' = Some (Str (last brokers))
         \<and> map_of leaderDict ''hostname''
             = Some (Str (get_data_by_lookup_keyval U (clusterEntityConfigDictList senv)
                            ''entity_id'' (last brokers) ''hostname''))
         \<and> length leaderDict > 0"
proof -
  from leader_broker_loop_returns[OF assms(1), of U senv brokers "[]"
         "logger_log INFO ''looking up leader...'' w"] assms(3)
  obtain d' w' where
    r: "leader_broker_loop U senv tenv brokers [] (logger_log INFO ''looking up leader...'' w)
          = Inr (d', w')"
    and e: "map_of d' ''entity_id'' = Some (Str (last brokers))"
    and h: "map_of d' ''hostname''
              = Some (Str (get_data_by_lookup_keyval U (clusterEntityConfigDictList senv)
                             ''entity_id'' (last brokers) ''hostname''))"
    by auto
  from e have "d' \<noteq> []" by auto
  with r e h assms(2) show ?thesis
    by (simp add: get_leader_elected_log_line_def Let_def)
qed

lemma two_brokers_list:
  "get_data_from_list_of_dicts (example_utils broker1_output leader_groups)
     (clusterEntityConfigDictList two_brokers_senv) ''role'' ''broker'' ''entity_id''
   = [''1'', ''2'']"
  by code_simp


lemma two_brokers_brokerid:
  "map_of (fst (projr (get_leader_elected_log_line
            (example_utils broker1_output leader_groups) two_brokers_senv two_brokers_tenv
            (world_of Map.empty)))) ''brokerid'' = Some (Str ''1'')"
  by code_simp

lemma two_brokers_hostname:
  "get_data_by_lookup_keyval (example_utils broker1_output leader_groups)
     (clusterEntityConfigDictList two_brokers_senv) ''entity_id'' ''2'' ''hostname'' = ''h2''"
  by code_simp

theorem leader_fact_names_last_broker_witness:
  "\<exists>leaderDict w'.
     get_leader_elected_log_line (example_utils broker1_output leader_groups)
       two_brokers_senv two_brokers_tenv (world_of Map.empty) = Inr (leaderDict, w')
     \<and> map_of leaderDict ''entity_id'' = Some (Str ''2'')
     \<and> map_of leaderDict ''hostname'' = Some (Str ''h2'')
     \<and> map_of leaderDict ''brokerid'' = Some (Str ''1'')"
proof -
  have h1: "userDefinedEnvVarDict two_brokers_tenv ''LEADER_ELECTION_COMPLETED_MSG''
              = Some ''completed the leader state transition''"
    by (simp add: two_brokers_tenv_def)
  have h3: "[''1'', ''2''] \<noteq> ([]::string list)" by simp
  from leader_fact_names_last_broker[OF h1 two_brokers_list h3, of "world_of Map.empty"]
  obtain leaderDict w' where
    r: "get_leader_elected_log_line (example_utils broker1_output leader_groups)
          two_brokers_senv two_brokers_tenv (world_of Map.empty) = Inr (leaderDict, w')"
    and e: "map_of leaderDict ''entity_id'' = Some (Str ''2'')"
    and h0: "map_of leaderDict ''hostname''
               = Some (Str (get_data_by_lookup_keyval (example_utils broker1_output leader_groups)
                              (clusterEntityConfigDictList two_brokers_senv)
                              ''entity_id'' ''2'' ''hostname''))"
    by auto
  from h0 have h: "map_of leaderDict ''hostname'' = Some (Str ''h2'')"
    by (simp only: two_brokers_hostname)
  from two_brokers_brokerid r have "map_of leaderDict ''brokerid'' = Some (Str ''1'')"
    by simp
  with r e h show ?thesis by blast
qed

section \<open>Fact extraction: exceptions\<close>

text \<open>
  Claim C3. The claim holds of \<^verbatim>\<open>get_leader_elected_log_line\<close>: a pattern that does not
  match, a missing group or a timestamp that does not parse is caught by the bare
  \<^verbatim>\<open>except\<close>, logged as an error, and leaves a partial fact
  (\<open>leader_line_loop_returns\<close>, \<open>leader_broker_loop_returns\<close>). It fails of
  \<^verbatim>\<open>get_message_id\<close>, which has no \<^verbatim>\<open>try\<close>: a line that contains \<^verbatim>\<open>MessageID\<close> but
  not \<^verbatim>\<open>MessageID:<id>:\<close> passes the test \<^verbatim>\<open>"MessageID" in line\<close>, the match is
  \<^verbatim>\<open>None\<close>, and \<^verbatim>\<open>matchObj.group(1)\<close> raises AttributeError, which leaves the
  function. On the log below the function raises.
\<close>

theorem get_message_id_raises_on_unmatched_line:
  "get_message_id truncated_log ''/tc/logs/p.log'' = Inl AttributeError"
  by code_simp


section \<open>Registration of process ids: the keys\<close>

lemma entity_pid_loop_keys:
  "entity_pid_loop entityId lines tenv w = Inr (tenv', w') \<Longrightarrow> k \<noteq> entityId
     \<Longrightarrow> entityParentPidDict tenv' k = entityParentPidDict tenv k"
proof (induction lines arbitrary: tenv w)
  case Nil
  then show ?case by simp
next
  case (Cons line lines)
  show ?case
  proof (cases "startswith line ''pid''")
    case False
    with Cons.prems(1) have "entity_pid_loop entityId lines tenv w = Inr (tenv', w')" by simp
    then show ?thesis using Cons.prems(2) by (rule Cons.IH)
  next
    case True
    with Cons.prems(1) obtain pid w1 where
      "entity_pid_loop entityId lines
         (tenv\<lparr>entityParentPidDict := (entityParentPidDict tenv)(entityId \<mapsto> pid)\<rparr>) w1
       = Inr (tenv', w')"
      by (auto simp: Let_def split: sum.splits)
    from Cons.IH[OF this Cons.prems(2)] Cons.prems(2) show ?thesis by simp
  qed
qed

lemma metrics_pid_loop_keys:
  "metrics_pid_loop lines tenv w = Inr (tenv', w')
     \<Longrightarrow> entityParentPidDict tenv' k = entityParentPidDict tenv k
         \<or> entityParentPidDict tenv' k = Some k"
proof (induction lines arbitrary: tenv w)
  case Nil
  then show ?case by simp
next
  case (Cons line lines)
  show ?case
  proof (cases "startswith line ''pid''")
    case False
    with Cons.prems have "metrics_pid_loop lines tenv w = Inr (tenv', w')" by simp
    then show ?thesis by (rule Cons.IH)
  next
    case True
    with Cons.prems obtain thisPid w1 where
      "metrics_pid_loop lines
         (tenv\<lparr>entityParentPidDict := (entityParentPidDict tenv)(thisPid \<mapsto> thisPid)\<rparr>) w1
       = Inr (tenv', w')"
      by (auto simp: Let_def split: sum.splits)
    from Cons.IH[OF this] show ?thesis by (auto split: if_splits)
  qed
qed

lemma start_zookeeper_registers_entity_id_as_key:
  "(case entity_pid_loop ''1'' (pid_output [] []) two_brokers_tenv (world_of Map.empty) of
      Inl e \<Rightarrow> False
    | Inr (tenv', w') \<Rightarrow>
        entityParentPidDict tenv' ''1'' = Some ''5150''
        \<and> entityParentPidDict tenv' ''5150'' = None)"
  by code_simp

text \<open>
  Claim C4. The startup of an entity records the process id under the entity's
  \<^verbatim>\<open>entity_id\<close> and touches no other key (\<open>entity_pid_loop_keys\<close>). The startup of the
  metrics collector, called with the same \<^verbatim>\<open>entityId\<close>, records the process id under
  the process id itself (\<open>metrics_pid_loop_keys\<close>): started for entity 1 with the
  marker \<^verbatim>\<open>pid:5150\<close>, it leaves the key 5150 in \<^verbatim>\<open>entityParentPidDict\<close> and nothing
  under the key 1.
\<close>

theorem start_metrics_collection_registers_pid_as_key:
  "(case start_metrics_collection (example_utils pid_output no_match) ''h1'' ''9990''
           ''kafka:type=kafka.SocketServerStats'' ''AvgFetchRequestMs, AvgProduceRequestMs''
           ''1'' (clusterEntityConfigDictList two_brokers_senv) two_brokers_tenv
           (world_of Map.empty) of
      Inl e \<Rightarrow> False
    | Inr (tenv', w') \<Rightarrow>
        entityParentPidDict tenv' ''5150'' = Some ''5150''
        \<and> entityParentPidDict tenv' ''1'' = None)"
  by code_simp

section \<open>Config materializer: a role it does not know\<close>




section \<open>Config materializer: rendering a template\<close>

lemma startswith_append: "startswith s p = (\<exists>t. s = p @ t)"
proof (induction s p rule: startswith.induct)
  case (1 s) show ?case by simp
next
  case (2 p ps) show ?case by simp
next
  case (3 c cs p ps) then show ?case by auto
qed

lemma takeWhile_upto: "x \<notin> set k \<Longrightarrow> takeWhile (\<lambda>c. c \<noteq> x) (k @ x # t) = k"
  by (induction k) auto

lemma dropWhile_from: "x \<in> set xs \<Longrightarrow> \<exists>t. dropWhile (\<lambda>c. c \<noteq> x) xs = x # t"
  by (induction xs) auto

lemma line_key_append:
  "CHR ''='' \<notin> set k \<Longrightarrow> line_key (k @ CHR ''='' # t) = Some k"
  by (simp add: line_key_def takeWhile_upto)

lemma line_key_split:
  assumes "line_key line = Some k"
  shows "\<exists>t. line = k @ CHR ''='' # t"
proof -
  from assms have in_line: "CHR ''='' \<in> set line"
    by (simp add: line_key_def split: if_splits)
  from assms in_line have k: "takeWhile (\<lambda>c. c \<noteq> CHR ''='') line = k"
    by (simp add: line_key_def)
  from dropWhile_from[OF in_line]
  obtain t where t: "dropWhile (\<lambda>c. c \<noteq> CHR ''='') line = CHR ''='' # t" ..
  have "k @ CHR ''='' # t
          = takeWhile (\<lambda>c. c \<noteq> CHR ''='') line @ dropWhile (\<lambda>c. c \<noteq> CHR ''='') line"
    by (simp only: k t)
  also have "\<dots> = line"
    by (rule takeWhile_dropWhile_id)
  finally show ?thesis by blast
qed

lemma startswith_key:
  assumes "CHR ''='' \<notin> set k"
  shows "startswith line (k @ ''='') = (line_key line = Some k)"
proof
  assume "startswith line (k @ ''='')"
  then obtain t where "line = k @ CHR ''='' # t" by (auto simp: startswith_append)
  with assms show "line_key line = Some k" by (simp add: line_key_append)
next
  assume "line_key line = Some k"
  then obtain t where "line = k @ CHR ''='' # t" using line_key_split by blast
  then show "startswith line (k @ ''='')" by (simp add: startswith_append)
qed

lemma copy_line_render:
  "distinct (map fst settings) \<Longrightarrow> eq_free_keys settings
     \<Longrightarrow> copy_line settings line = render_line settings line"
proof (induction settings arbitrary: line)
  case Nil
  show ?case by (simp add: render_line_def split: option.splits)
next
  case (Cons entry rest)
  obtain k v where entry: "entry = (k, v)" by (cases entry)
  from Cons.prems entry have dist: "distinct (map fst rest)" and fresh: "k \<notin> fst ` set rest"
    and free: "eq_free_keys rest" and kfree: "CHR ''='' \<notin> set k"
    by (auto simp: eq_free_keys_def)
  note IH = Cons.IH[OF dist free]
  from fresh have nok: "map_of rest k = None" by (simp add: map_of_eq_None_iff)
  show ?case
  proof (cases "line_key line = Some k")
    case True
    then have sw: "startswith line (k @ ''='')" using startswith_key[OF kfree] by simp
    have "copy_line (entry # rest) line = copy_line rest (k @ ''='' @ v @ [NL])"
      using sw entry by simp
    also have "\<dots> = render_line rest (k @ ''='' @ v @ [NL])" by (rule IH)
    also have "\<dots> = k @ ''='' @ v @ [NL]"
      using line_key_append[OF kfree, of "v @ [NL]"] nok by (simp add: render_line_def)
    also have "\<dots> = render_line (entry # rest) line"
      using True entry by (simp add: render_line_def)
    finally show ?thesis .
  next
    case False
    then have sw: "\<not> startswith line (k @ ''='')" using startswith_key[OF kfree] by simp
    have "copy_line (entry # rest) line = copy_line rest line"
      using sw entry by simp
    also have "\<dots> = render_line rest line" by (rule IH)
    also have "\<dots> = render_line (entry # rest) line"
      using False entry by (auto simp: render_line_def split: option.splits)
    finally show ?thesis .
  qed
qed


text \<open>
  Claim C8, as amended. For every settings mapping none of whose keys contains \<^verbatim>\<open>=\<close>,
  in whatever order its keys are iterated: a template line whose key (the text before
  its first \<^verbatim>\<open>=\<close>) has an entry in the mapping is written as \<^verbatim>\<open>key=value\<close> and a
  newline, and every other line is copied verbatim; when the template can be read and
  the destination written, the destination file holds the lines of the template
  rendered so, in their order.
\<close>

theorem copy_file_renders_settings:
  assumes "distinct (map fst dictObj)" and "eq_free_keys dictObj"
  shows "copy_line dictObj line = render_line dictObj line
         \<and> (files w srcFile = Some content \<and> writable w destFile \<longrightarrow>
              copy_file_with_dict_values srcFile destFile dictObj w
                = Inr (w\<lparr>files := (files w)(destFile \<mapsto>
                         concat (map (render_line dictObj) (readlines content)))\<rparr>))"
proof -
  have "copy_line dictObj = render_line dictObj"
    using copy_line_render[OF assms] by (rule ext)
  then show ?thesis
    by (simp add: copy_file_with_dict_values_def open_write_def)
qed

theorem copy_file_renders_settings_witness:
  "copy_line zk_settings (''zk.connect=OLD'' @ [NL]) = ''zk.connect=h1:2181,h2:2181'' @ [NL]
   \<and> copy_line zk_settings (''brokerid=1'' @ [NL]) = ''brokerid=1'' @ [NL]
   \<and> copy_file_with_dict_values ''/suite/config/server.properties''
         ''/tc/config/server_1.properties'' zk_settings (world_of server_template)
       = Inr ((world_of server_template)\<lparr>files := server_template
                (''/tc/config/server_1.properties'' \<mapsto>
                   ''# broker'' @ [NL] @ ''zk.connect=h1:2181,h2:2181'' @ [NL]
                     @ ''brokerid=1'' @ [NL])\<rparr>)"
proof -
  have d: "distinct (map fst zk_settings)" by (simp add: zk_settings_def)
  have e: "eq_free_keys zk_settings" by (simp add: zk_settings_def eq_free_keys_def)
  have r1: "render_line zk_settings (''zk.connect=OLD'' @ [NL])
              = ''zk.connect=h1:2181,h2:2181'' @ [NL]"
    by code_simp
  have r2: "render_line zk_settings (''brokerid=1'' @ [NL]) = ''brokerid=1'' @ [NL]"
    by code_simp
  have r3: "concat (map (render_line zk_settings)
              (readlines (''# broker'' @ [NL] @ ''zk.connect=OLD'' @ [NL] @ ''brokerid=1'' @ [NL])))
            = ''# broker'' @ [NL] @ ''zk.connect=h1:2181,h2:2181'' @ [NL] @ ''brokerid=1'' @ [NL]"
    by code_simp
  have f: "files (world_of server_template) ''/suite/config/server.properties''
             = Some (''# broker'' @ [NL] @ ''zk.connect=OLD'' @ [NL] @ ''brokerid=1'' @ [NL])"
    by (simp add: world_of_def server_template_def)
  have wr: "writable (world_of server_template) ''/tc/config/server_1.properties''"
    by (simp add: world_of_def)
  have fs: "files (world_of server_template) = server_template"
    by (simp add: world_of_def)
  from copy_file_renders_settings[OF d e, of "''zk.connect=OLD'' @ [NL]"] r1
  have a: "copy_line zk_settings (''zk.connect=OLD'' @ [NL]) = ''zk.connect=h1:2181,h2:2181'' @ [NL]"
    by simp
  from copy_file_renders_settings[OF d e, of "''brokerid=1'' @ [NL]"] r2
  have b: "copy_line zk_settings (''brokerid=1'' @ [NL]) = ''brokerid=1'' @ [NL]"
    by simp
  from copy_file_renders_settings[OF d e, of _ "world_of server_template"
         "''/suite/config/server.properties''"
         "''# broker'' @ [NL] @ ''zk.connect=OLD'' @ [NL] @ ''brokerid=1'' @ [NL]"
         "''/tc/config/server_1.properties''"] f wr
  have c: "copy_file_with_dict_values ''/suite/config/server.properties''
             ''/tc/config/server_1.properties'' zk_settings (world_of server_template)
           = Inr ((world_of server_template)\<lparr>files := (files (world_of server_template))
                (''/tc/config/server_1.properties'' \<mapsto>
                   concat (map (render_line zk_settings)
                     (readlines (''# broker'' @ [NL] @ ''zk.connect=OLD'' @ [NL]
                        @ ''brokerid=1'' @ [NL]))))\<rparr>)"
    by blast
  show ?thesis using a b c unfolding r3 fs by simp
qed

text \<open>
  The claim as stated fails for a key that contains \<^verbatim>\<open>=\<close>: the key of the line
  \<^verbatim>\<open>a=b=c\<close> is \<^verbatim>\<open>a\<close>, which the mapping does not hold, and yet the line is rewritten
  with the entry of \<^verbatim>\<open>a=b\<close>, because the code tests \<^verbatim>\<open>line.startswith(key + "=")\<close>.
\<close>

theorem copy_line_counterexample:
  "distinct (map fst [(''a=b'', ''X'')])
   \<and> line_key (''a=b=c'' @ [NL]) = Some ''a''
   \<and> map_of [(''a=b'', ''X'')] ''a'' = None
   \<and> copy_line [(''a=b'', ''X'')] (''a=b=c'' @ [NL]) = ''a=b=X'' @ [NL]"
  by code_simp

section \<open>Process lifecycle manager: the connection string\<close>

lemma split_colon_nonempty: "split_colon s \<noteq> []"
  by (induction s) (auto split: list.splits)

lemma split_colon_two: "CHR '':'' \<in> set s \<Longrightarrow> 1 < length (split_colon s)"
proof (induction s)
  case Nil
  then show ?case by simp
next
  case (Cons c cs)
  show ?case
  proof (cases "c = CHR '':''")
    case True
    then show ?thesis using split_colon_nonempty[of cs] by (cases "split_colon cs") auto
  next
    case False
    with Cons.prems have "CHR '':'' \<in> set cs" by simp
    then have "1 < length (split_colon cs)" by (rule Cons.IH)
    with False show ?thesis by (cases "split_colon cs") auto
  qed
qed

lemma dropWhile_keeps: "x \<in> set xs \<Longrightarrow> \<not> P x \<Longrightarrow> x \<in> set (dropWhile P xs)"
  by (induction xs) auto

lemma rstrip_nl_keeps_colon: "CHR '':'' \<in> set s \<Longrightarrow> CHR '':'' \<in> set (rstrip_nl s)"
proof -
  assume "CHR '':'' \<in> set s"
  then have "CHR '':'' \<in> set (rev s)" by simp
  then have "CHR '':'' \<in> set (dropWhile (\<lambda>c. c = NL) (rev s))"
    by (rule dropWhile_keeps) simp
  then show ?thesis by (simp add: rstrip_nl_def)
qed

lemma pid_token:
  assumes "CHR '':'' \<in> set line"
  shows "\<exists>pid. py_index (split_colon (rstrip_nl line)) 1 = Inr pid"
  using split_colon_two[OF rstrip_nl_keeps_colon[OF assms]] by (simp add: py_index_def)

lemma entity_pid_loop_returns:
  assumes "\<And>line. line \<in> set lines \<Longrightarrow> startswith line ''pid'' \<Longrightarrow> CHR '':'' \<in> set line"
  shows "\<exists>tenv' w'. entity_pid_loop entityId lines tenv w = Inr (tenv', w')
           \<and> userDefinedEnvVarDict tenv' = userDefinedEnvVarDict tenv
           \<and> testcaseConfigsList tenv' = testcaseConfigsList tenv"
  using assms
proof (induction lines arbitrary: tenv w)
  case Nil
  show ?case by simp
next
  case (Cons line lines)
  have rest: "\<And>l. l \<in> set lines \<Longrightarrow> startswith l ''pid'' \<Longrightarrow> CHR '':'' \<in> set l"
    using Cons.prems by simp
  show ?case
  proof (cases "startswith line ''pid''")
    case False
    then have "entity_pid_loop entityId (line # lines) tenv w = entity_pid_loop entityId lines tenv w"
      by simp
    with Cons.IH[OF rest, of tenv w] show ?thesis by simp
  next
    case True
    with Cons.prems have "CHR '':'' \<in> set line" by simp
    from pid_token[OF this] obtain pid where
      pid: "py_index (split_colon (rstrip_nl line)) 1 = Inr pid" ..
    define tenv1 where "tenv1 = tenv\<lparr>entityParentPidDict := (entityParentPidDict tenv)(entityId \<mapsto> pid)\<rparr>"
    from True pid obtain w1 where
      "entity_pid_loop entityId (line # lines) tenv w = entity_pid_loop entityId lines tenv1 w1"
      by (simp add: Let_def tenv1_def)
    with Cons.IH[OF rest, of tenv1 w1] show ?thesis by (auto simp: tenv1_def)
  qed
qed

lemma resolve_config:
  "get_testcase_config_log_dir_pathname tenv role entityId ''config'' w
     = (testCaseBaseDir tenv @ ''/config'', w)"
  by (simp add: get_testcase_config_log_dir_pathname_def)

lemma start_zookeeper_step:
  assumes role: "get_data_by_lookup_keyval U (clusterEntityConfigDictList senv)
                   ''entity_id'' entityId ''role'' = ''zookeeper''"
      and zk: "userDefinedEnvVarDict tenv ''zkConnectStr'' = Some s"
      and wf: "\<forall>history cmd line. line \<in> set (subproc_stdout U history cmd)
                 \<longrightarrow> startswith line ''pid'' \<longrightarrow> CHR '':'' \<in> set line"
  shows "\<exists>tenv' w'.
           start_entity_in_background U senv tenv entityId w = Inr (tenv', w')
         \<and> userDefinedEnvVarDict tenv' ''zkConnectStr''
             = Some ((if s = [] then [] else s @ '','')
                     @ get_data_by_lookup_keyval U (clusterEntityConfigDictList senv)
                         ''entity_id'' entityId ''hostname''
                     @ '':''
                     @ get_data_by_lookup_keyval U (testcaseConfigsList tenv)
                         ''entity_id'' entityId ''clientPort'')
         \<and> testcaseConfigsList tenv' = testcaseConfigsList tenv"
proof -
  define hp where "hp = get_data_by_lookup_keyval U (clusterEntityConfigDictList senv)
                         ''entity_id'' entityId ''hostname''
                     @ '':''
                     @ get_data_by_lookup_keyval U (testcaseConfigsList tenv)
                         ''entity_id'' entityId ''clientPort''"
  define tenv1 where "tenv1 = tenv\<lparr>userDefinedEnvVarDict := (userDefinedEnvVarDict tenv)
                          (''zkConnectStr'' \<mapsto>
                             (if length s > 0
                              then s @ '','' @ get_data_by_lookup_keyval U
                                     (clusterEntityConfigDictList senv) ''entity_id'' entityId ''hostname''
                                   @ '':'' @ get_data_by_lookup_keyval U (testcaseConfigsList tenv)
                                     ''entity_id'' entityId ''clientPort''
                              else get_data_by_lookup_keyval U
                                     (clusterEntityConfigDictList senv) ''entity_id'' entityId ''hostname''
                                   @ '':'' @ get_data_by_lookup_keyval U (testcaseConfigsList tenv)
                                     ''entity_id'' entityId ''clientPort''))\<rparr>"
  obtain history cmd w7 where step:
    "start_entity_in_background U senv tenv entityId w =
       (case entity_pid_loop entityId (subproc_stdout U history cmd) tenv1 w7 of
          Inl e \<Rightarrow> Inl e
        | Inr (tenv2, w8) \<Rightarrow> Inr (tenv2, w8))"
    by (simp add: start_entity_in_background_def Let_def resolve_default resolve_config
          map_get_def sys_call_return_subproc_def tenv1_def role zk
          cong: sum.case_cong prod.case_cong)
  from entity_pid_loop_returns[of "subproc_stdout U history cmd" entityId tenv1 w7] wf
  obtain tenv' w' where
    r: "entity_pid_loop entityId (subproc_stdout U history cmd) tenv1 w7 = Inr (tenv', w')"
    and u: "userDefinedEnvVarDict tenv' = userDefinedEnvVarDict tenv1"
    and c: "testcaseConfigsList tenv' = testcaseConfigsList tenv1"
    by blast
  from step r have "start_entity_in_background U senv tenv entityId w = Inr (tenv', w')"
    by simp
  moreover from u have "userDefinedEnvVarDict tenv' ''zkConnectStr''
                          = Some ((if s = [] then [] else s @ '','') @ hp)"
    by (simp add: tenv1_def hp_def)
  moreover from c have "testcaseConfigsList tenv' = testcaseConfigsList tenv"
    by (simp add: tenv1_def)
  ultimately show ?thesis unfolding hp_def by blast
qed

lemma zk_accumulate_nonempty:
  "s \<noteq> [] \<Longrightarrow> zk_accumulate s entries
     = s @ concat (map (\<lambda>(hostname, clientPort). '','' @ hostname @ '':'' @ clientPort) entries)"
proof (induction entries arbitrary: s)
  case Nil
  show ?case by simp
next
  case (Cons entry entries)
  obtain h p where entry: "entry = (h, p)" by (cases entry)
  have "s @ '','' @ h @ '':'' @ p \<noteq> []" using Cons.prems by simp
  from Cons.IH[OF this] Cons.prems show ?case by (simp add: entry)
qed

lemma zk_accumulate_connection_string: "zk_accumulate [] entries = connection_string entries"
proof (cases entries)
  case Nil
  then show ?thesis by simp
next
  case (Cons entry rest)
  obtain h p where entry: "entry = (h, p)" by (cases entry)
  have "h @ '':'' @ p \<noteq> []" by simp
  from zk_accumulate_nonempty[OF this, of rest] show ?thesis by (simp add: Cons entry)
qed

lemma start_entities_accumulate:
  assumes wf: "\<forall>history cmd line. line \<in> set (subproc_stdout U history cmd)
                 \<longrightarrow> startswith line ''pid'' \<longrightarrow> CHR '':'' \<in> set line"
  shows "(\<And>e. e \<in> set ids \<Longrightarrow> get_data_by_lookup_keyval U (clusterEntityConfigDictList senv)
                                  ''entity_id'' e ''role'' = ''zookeeper'')
     \<Longrightarrow> userDefinedEnvVarDict tenv ''zkConnectStr'' = Some s
     \<Longrightarrow> testcaseConfigsList tenv = tcs
     \<Longrightarrow> \<exists>tenv' w'. start_entities U senv ids tenv w = Inr (tenv', w')
           \<and> userDefinedEnvVarDict tenv' ''zkConnectStr''
               = Some (zk_accumulate s
                   (map (\<lambda>e. (get_data_by_lookup_keyval U (clusterEntityConfigDictList senv)
                                 ''entity_id'' e ''hostname'',
                               get_data_by_lookup_keyval U tcs ''entity_id'' e ''clientPort''))
                        ids))"
proof (induction ids arbitrary: tenv w s)
  case Nil
  then show ?case by simp
next
  case (Cons e ids)
  have role: "get_data_by_lookup_keyval U (clusterEntityConfigDictList senv)
                ''entity_id'' e ''role'' = ''zookeeper''"
    using Cons.prems(1) by simp
  from start_zookeeper_step[OF role Cons.prems(2) wf, where w=w]
  obtain tenv1 w1 where
    st: "start_entity_in_background U senv tenv e w = Inr (tenv1, w1)"
    and zk1: "userDefinedEnvVarDict tenv1 ''zkConnectStr''
               = Some ((if s = [] then [] else s @ '','')
                     @ get_data_by_lookup_keyval U (clusterEntityConfigDictList senv)
                         ''entity_id'' e ''hostname''
                     @ '':''
                     @ get_data_by_lookup_keyval U (testcaseConfigsList tenv)
                         ''entity_id'' e ''clientPort'')"
    and tc1: "testcaseConfigsList tenv1 = testcaseConfigsList tenv"
    by blast
  have roles: "\<And>x. x \<in> set ids \<Longrightarrow> get_data_by_lookup_keyval U (clusterEntityConfigDictList senv)
                                  ''entity_id'' x ''role'' = ''zookeeper''"
    using Cons.prems(1) by simp
  from tc1 Cons.prems(3) have tcs1: "testcaseConfigsList tenv1 = tcs" by simp
  from Cons.IH[OF roles zk1 tcs1, where w=w1] st Cons.prems(3)
  show ?case by simp
qed

lemma three_zk_ids:
  "get_data_from_list_of_dicts (example_utils pid_output no_match)
     (clusterEntityConfigDictList three_zk_senv) ''role'' ''zookeeper'' ''entity_id''
   = [''0'', ''1'', ''2'']"
  by code_simp

lemma three_zk_roles:
  "list_all (\<lambda>e. get_data_by_lookup_keyval (example_utils pid_output no_match)
                    (clusterEntityConfigDictList three_zk_senv) ''entity_id'' e ''role''
                  = ''zookeeper'') [''0'', ''1'', ''2'']"
  by code_simp

lemma three_zk_string:
  "connection_string
     (map (\<lambda>e. (get_data_by_lookup_keyval (example_utils pid_output no_match)
                   (clusterEntityConfigDictList three_zk_senv) ''entity_id'' e ''hostname'',
                 get_data_by_lookup_keyval (example_utils pid_output no_match)
                   (testcaseConfigsList three_zk_tenv) ''entity_id'' e ''clientPort''))
          [''0'', ''1'', ''2''])
   = ''h1:2181,h2:2181,h3:2181''"
  by code_simp

lemma three_zk_materializer:
  "zk_connect_loop (example_utils pid_output no_match) (testcaseConfigsList three_zk_tenv)
     (get_dict_from_list_of_dicts (example_utils pid_output no_match)
        (clusterEntityConfigDictList three_zk_senv) ''role'' ''zookeeper'') []
   = Inr ''h1:2181,h2:2181,h3:2181''"
  by code_simp


text \<open>
  Claim C7. Let the connection string in \<^verbatim>\<open>userDefinedEnvVarDict\<close> be empty, let the
  lookups give every coordination entity the role zookeeper, and let every line of a
  pid marker file that starts with \<^verbatim>\<open>pid\<close> hold a colon (otherwise the registration of
  the pid raises IndexError). Then \<^verbatim>\<open>start_zookeepers\<close> returns, and the connection
  string it leaves in \<^verbatim>\<open>userDefinedEnvVarDict\<close> is \<^verbatim>\<open>hostname:clientPort\<close> of the
  coordination entities in their order, comma-separated, the first without a leading
  comma: each start appends to what the starts before it left. For the three entities
  at \<open>h1:2181\<close>, \<open>h2:2181\<close>, \<open>h3:2181\<close> the string is \<open>h1:2181,h2:2181,h3:2181\<close> (the
  witness); the materializer computes the same string for them
  (\<open>three_zk_materializer\<close>).
\<close>

theorem zookeepers_accumulate_connection_string:
  assumes "userDefinedEnvVarDict tenv ''zkConnectStr'' = Some []"
      and "get_data_from_list_of_dicts U (clusterEntityConfigDictList senv)
             ''role'' ''zookeeper'' ''entity_id'' = ids"
      and "\<And>e. e \<in> set ids \<Longrightarrow> get_data_by_lookup_keyval U (clusterEntityConfigDictList senv)
                                  ''entity_id'' e ''role'' = ''zookeeper''"
      and "\<forall>history cmd line. line \<in> set (subproc_stdout U history cmd)
             \<longrightarrow> startswith line ''pid'' \<longrightarrow> CHR '':'' \<in> set line"
  shows "\<exists>tenv' w'.
           start_zookeepers U senv tenv w = Inr (tenv', w')
         \<and> userDefinedEnvVarDict tenv' ''zkConnectStr''
             = Some (connection_string
                 (map (\<lambda>e. (get_data_by_lookup_keyval U (clusterEntityConfigDictList senv)
                               ''entity_id'' e ''hostname'',
                             get_data_by_lookup_keyval U (testcaseConfigsList tenv)
                               ''entity_id'' e ''clientPort''))
                      ids))"
  using start_entities_accumulate[OF assms(4) assms(3) assms(1) refl, where w=w]
  by (simp add: start_zookeepers_def assms(2) zk_accumulate_connection_string)

theorem zookeepers_accumulate_connection_string_witness:
  "\<exists>tenv' w'.
     start_zookeepers (example_utils pid_output no_match) three_zk_senv three_zk_tenv
       (world_of Map.empty) = Inr (tenv', w')
     \<and> userDefinedEnvVarDict tenv' ''zkConnectStr'' = Some ''h1:2181,h2:2181,h3:2181''"
proof -
  have h1: "userDefinedEnvVarDict three_zk_tenv ''zkConnectStr'' = Some []"
    by (simp add: three_zk_tenv_def)
  have h3: "\<And>e. e \<in> set [''0'', ''1'', ''2'']
              \<Longrightarrow> get_data_by_lookup_keyval (example_utils pid_output no_match)
                    (clusterEntityConfigDictList three_zk_senv) ''entity_id'' e ''role''
                  = ''zookeeper''"
    using three_zk_roles unfolding list_all_iff by blast
  have h4: "\<forall>history cmd line.
              line \<in> set (subproc_stdout (example_utils pid_output no_match) history cmd)
              \<longrightarrow> startswith line ''pid'' \<longrightarrow> CHR '':'' \<in> set line"
    by (simp add: example_utils_def pid_output_def)
  from zookeepers_accumulate_connection_string[OF h1 three_zk_ids h3 h4,
         where w="world_of Map.empty"]
  show ?thesis unfolding three_zk_string .
qed

end
